theory Spec2Isabelle
  imports Main "HOL-Library.AList"
begin

section \<open>The reservation queue of shopverse (QueueService)\<close>

text \<open>
  This theory embeds the class \<open>QueueService\<close> (the third document of
  \<^verbatim>\<open>src/src/products/schemas/product.schema.ts\<close>, imported by the payment controller as
  \<^verbatim>\<open>queues/queue.service\<close>) and proves properties of its operations.

  Modelling decisions, each following the source:
  \<^item> JavaScript numbers are modelled as \<open>int\<close>: stock, quantities, clock readings,
    positions and waiting times are whole numbers in every call the service makes.
  \<^item> The product collection is a map from product id to product; \<open>findOne\<close> is the
    lookup and \<open>updateOne\<close> with \<open>$inc\<close> changes the stock of a stored product and
    does nothing when no product has that id.
  \<^item> \<open>productQueues\<close> is a JavaScript \<open>Map\<close>, iterated in insertion order by the
    cleanup: it is an association list, \<open>set\<close> is \<open>AList.update\<close> (in place for a
    known key, at the end for a new one) and \<open>delete\<close> is \<open>AList.delete\<close>.
  \<^item> \<open>userQueues\<close> is a \<open>Map\<close> from user id to a \<open>Set\<close> of product ids; no
    operation here depends on its iteration order, so it is a map to sets.
  \<^item> \<open>eventEmitter.emit\<close> appends to an event log carried in the state. The
    listeners of the payment controller only write log lines.
  \<^item> \<open>Date.now()\<close> and the generated queue id are inputs of \<open>joinQueue\<close>
    (one clock reading per call site); the time of a cleanup tick is its argument.
  \<^item> A call to the product collection either returns or is rejected. Which calls of
    one operation are rejected is an input of \<open>joinQueue\<close>, \<open>leaveQueue\<close> and
    \<open>processSuccessfulPayment\<close> (the record \<open>DbCalls\<close>); a rejection takes the
    operation to its \<open>catch\<close> branch, with the state as the statements before the
    rejected call have left it. \<open>cleanupExpiredItems\<close> has no \<open>catch\<close>: a rejected
    call ends the tick with the rejection, and the tick is modelled for the runs in which
    its calls return.
  \<^item> Every operation is modelled as running alone from its first statement to its
    last. Logger calls are not part of the state.
\<close>

subsection \<open>Data\<close>

record Product =
  stock :: int

record QueueItem =
  itemId :: string
  userId :: string
  productId :: string
  quantity :: int
  timestamp :: int
  expiresAt :: int
  userEmail :: string
  userName :: string
  reservedUntil :: int

record ProductQueue =
  queueProductId :: string
  maxQueueSize :: int
  items :: "QueueItem list"
  processingTimeout :: int
  isActive :: bool

datatype event =
    QueueJoined string string string int
  | QueueLeft string string string string
  | QueueTimeout string string string
  | QueuePositionUpdated string string string int int
  | PaymentProcessed string string int

record state =
  products :: "string \<rightharpoonup> Product"
  productQueues :: "(string \<times> ProductQueue) list"
  userQueues :: "string \<rightharpoonup> string set"
  events :: "event list"

record JoinResult =
  success :: bool
  position :: "int option"
  estimatedWaitTime :: "int option"
  queueId :: "string option"
  message :: string

text \<open>The values \<open>joinQueue\<close> reads from its environment: the result of
  \<open>generateQueueId()\<close> and the three successive readings of \<open>Date.now()\<close>.\<close>

record JoinEnv =
  newQueueId :: string
  nowTimestamp :: int
  nowExpiresAt :: int
  nowReservedUntil :: int

text \<open>The outcome of the database calls of one operation: whether its \<open>findOne\<close>
  is rejected, and whether its \<open>updateOne\<close> is. \<open>joinQueue\<close> calls \<open>findOne\<close>
  first and \<open>updateOne\<close> (in \<open>reserveStock\<close>) last; \<open>leaveQueue\<close> calls
  \<open>updateOne\<close> (in \<open>releaseReservedStock\<close>) first and \<open>findOne\<close> (in
  \<open>checkProductAvailability\<close>) last.\<close>

record DbCalls =
  findOneRejects :: bool
  updateOneRejects :: bool

definition allReturn :: DbCalls where
  "allReturn = \<lparr> findOneRejects = False, updateOneRejects = False \<rparr>"

subsection \<open>Constants\<close>

definition DEFAULT_QUEUE_SIZE :: int where
  "DEFAULT_QUEUE_SIZE = 10"

definition DEFAULT_TIMEOUT :: int where
  "DEFAULT_TIMEOUT = 15 * 60 * 1000"

definition LOW_STOCK_THRESHOLD :: int where
  "LOW_STOCK_THRESHOLD = 5"

subsection \<open>Array helpers\<close>

text \<open>\<open>Array.prototype.findIndex\<close>: the first index whose element satisfies the
  predicate; \<open>None\<close> stands for the result \<open>-1\<close>.\<close>

fun findIndex :: "('a \<Rightarrow> bool) \<Rightarrow> 'a list \<Rightarrow> nat option" where
  "findIndex P [] = None"
| "findIndex P (x # xs) = (if P x then Some 0 else map_option Suc (findIndex P xs))"

text \<open>\<open>xs.splice(i, 1)\<close>: the list without its element at index \<open>i\<close>.\<close>

definition splice1 :: "nat \<Rightarrow> 'a list \<Rightarrow> 'a list" where
  "splice1 i xs = take i xs @ drop (Suc i) xs"

subsection \<open>Private helpers of the service\<close>

definition emit :: "event \<Rightarrow> state \<Rightarrow> state" where
  "emit e s = s\<lparr>events := events s @ [e]\<rparr>"

definition calculateEstimatedWaitTime :: "int \<Rightarrow> int" where
  "calculateEstimatedWaitTime pos = pos * 2 * 60 * 1000"

text \<open>\<open>updateOne({id}, {$inc: {stock: d}})\<close>.\<close>

definition incStock :: "string \<Rightarrow> int \<Rightarrow> state \<Rightarrow> state" where
  "incStock pid d s =
     (case products s pid of
        None \<Rightarrow> s
      | Some p \<Rightarrow> s\<lparr>products := (products s)(pid \<mapsto> p\<lparr>stock := stock p + d\<rparr>)\<rparr>)"

definition reserveStock :: "string \<Rightarrow> int \<Rightarrow> state \<Rightarrow> state" where
  "reserveStock pid q s = incStock pid (- q) s"

definition releaseReservedStock :: "string \<Rightarrow> int \<Rightarrow> state \<Rightarrow> state" where
  "releaseReservedStock pid q s = incStock pid q s"

text \<open>The body of \<open>updateActualStock\<close> is empty in the source.\<close>

definition updateActualStock :: "string \<Rightarrow> int \<Rightarrow> state \<Rightarrow> state" where
  "updateActualStock pid q s = s"

text \<open>\<open>markProductUnavailable\<close> and \<open>checkProductAvailability\<close> only write log lines.\<close>

definition markProductUnavailable :: "string \<Rightarrow> state \<Rightarrow> state" where
  "markProductUnavailable pid s = s"

definition checkProductAvailability :: "string \<Rightarrow> state \<Rightarrow> state" where
  "checkProductAvailability pid s = s"

definition initializeProductQueue :: "string \<Rightarrow> int \<Rightarrow> state \<Rightarrow> ProductQueue \<times> state" where
  "initializeProductQueue pid stk s =
     (let pq = \<lparr> queueProductId = pid,
                 maxQueueSize = min DEFAULT_QUEUE_SIZE (stk * 2),
                 items = [],
                 processingTimeout = DEFAULT_TIMEOUT,
                 isActive = True \<rparr>
      in (pq, s\<lparr>productQueues := AList.update pid pq (productQueues s)\<rparr>))"

definition isUserInQueue :: "state \<Rightarrow> string \<Rightarrow> string \<Rightarrow> bool" where
  "isUserInQueue s uid pid =
     (case userQueues s uid of None \<Rightarrow> False | Some S \<Rightarrow> pid \<in> S)"

text \<open>The events of \<open>updateQueuePositions\<close>: one per item, in list order, the item at
  index \<open>i\<close> getting position \<open>i + 1\<close>. \<open>positionEvents k\<close> numbers a list whose
  first element has index \<open>k\<close>.\<close>

fun positionEvents :: "nat \<Rightarrow> QueueItem list \<Rightarrow> event list" where
  "positionEvents k [] = []"
| "positionEvents k (item # rest) =
     QueuePositionUpdated (userId item) (productId item) (itemId item)
        (int k + 1) (calculateEstimatedWaitTime (int k + 1))
     # positionEvents (Suc k) rest"

definition updateQueuePositions :: "ProductQueue \<Rightarrow> state \<Rightarrow> state" where
  "updateQueuePositions pq s = s\<lparr>events := events s @ positionEvents 0 (items pq)\<rparr>"

text \<open>The removal of a product from a user's set, with the user's key dropped when
  the set becomes empty (the same code in \<open>leaveQueue\<close> and in the cleanup).\<close>

definition removeUserQueue :: "string \<Rightarrow> string \<Rightarrow> state \<Rightarrow> state" where
  "removeUserQueue uid pid s =
     (case userQueues s uid of
        None \<Rightarrow> s
      | Some S \<Rightarrow>
          (if S - {pid} = {} then s\<lparr>userQueues := (userQueues s)(uid := None)\<rparr>
           else s\<lparr>userQueues := (userQueues s)(uid \<mapsto> S - {pid})\<rparr>))"

subsection \<open>joinQueue\<close>

definition failure :: "string \<Rightarrow> JoinResult" where
  "failure msg = \<lparr> success = False, position = None, estimatedWaitTime = None,
                   queueId = None, message = msg \<rparr>"

definition MSG_NOT_FOUND :: string where
  "MSG_NOT_FOUND = ''Product not found''"

definition MSG_INSUFFICIENT_STOCK :: string where
  "MSG_INSUFFICIENT_STOCK = ''Insufficient stock available''"

definition MSG_ALREADY_QUEUED :: string where
  "MSG_ALREADY_QUEUED = ''You are already in queue for this product''"

definition MSG_QUEUE_FULL :: string where
  "MSG_QUEUE_FULL =
     ''Product is currently unavailable due to high demand. Please try again later.''"

definition MSG_JOINED :: string where
  "MSG_JOINED = ''Successfully joined the queue''"

text \<open>The message of the \<open>catch\<close> branch of \<open>joinQueue\<close>.\<close>

definition MSG_FAILED :: string where
  "MSG_FAILED = ''Failed to join queue. Please try again.''"

text \<open>The \<open>try\<close> block of \<open>joinQueue\<close> awaits \<open>findOne\<close> as its first statement
  and \<open>reserveStock\<close> after the entry has been pushed and the index updated; a
  rejection of either is answered by the \<open>catch\<close> branch with the state reached so
  far.\<close>

definition joinQueue ::
  "DbCalls \<Rightarrow> JoinEnv \<Rightarrow> string \<Rightarrow> string \<Rightarrow> int \<Rightarrow> string \<Rightarrow> string \<Rightarrow> state
     \<Rightarrow> JoinResult \<times> state" where
  "joinQueue db env uid pid qty email name s =
     (if findOneRejects db then (failure MSG_FAILED, s)
      else case products s pid of
        None \<Rightarrow> (failure MSG_NOT_FOUND, s)
      | Some product \<Rightarrow>
          if stock product < qty then (failure MSG_INSUFFICIENT_STOCK, s)
          else if isUserInQueue s uid pid then (failure MSG_ALREADY_QUEUED, s)
          else
            let (productQueue, s1) =
                  (case map_of (productQueues s) pid of
                     Some pq \<Rightarrow> (pq, s)
                   | None \<Rightarrow> initializeProductQueue pid (stock product) s)
            in if int (length (items productQueue)) \<ge> maxQueueSize productQueue
               then (failure MSG_QUEUE_FULL, markProductUnavailable pid s1)
               else
                 let queueItem = \<lparr> itemId = newQueueId env, userId = uid, productId = pid,
                                    quantity = qty, timestamp = nowTimestamp env,
                                    expiresAt = nowExpiresAt env + processingTimeout productQueue,
                                    userEmail = email, userName = name,
                                    reservedUntil =
                                      nowReservedUntil env + processingTimeout productQueue \<rparr>;
                     pq' = productQueue\<lparr>items := items productQueue @ [queueItem]\<rparr>;
                     s2 = s1\<lparr>productQueues := AList.update pid pq' (productQueues s1)\<rparr>;
                     s3 = s2\<lparr>userQueues := (userQueues s2)
                             (uid \<mapsto> insert pid (case userQueues s2 uid of
                                                     None \<Rightarrow> {} | Some S \<Rightarrow> S))\<rparr>
                 in if updateOneRejects db then (failure MSG_FAILED, s3)
                    else
                      let s4 = reserveStock pid qty s3;
                          pos = int (length (items pq'));
                          s5 = emit (QueueJoined uid pid (newQueueId env) pos) s4
                      in (\<lparr> success = True, position = Some pos,
                             estimatedWaitTime = Some (calculateEstimatedWaitTime pos),
                             queueId = Some (newQueueId env), message = MSG_JOINED \<rparr>, s5))"

subsection \<open>leaveQueue and processSuccessfulPayment\<close>

text \<open>The optional argument \<open>queueId\<close> is \<open>None\<close> when absent; \<open>!queueId\<close> also
  holds for the empty string.\<close>

definition matchesLeave :: "string \<Rightarrow> string option \<Rightarrow> QueueItem \<Rightarrow> bool" where
  "matchesLeave uid qidOpt item =
     (userId item = uid \<and>
      (case qidOpt of None \<Rightarrow> True | Some q \<Rightarrow> q = [] \<or> itemId item = q))"

text \<open>The \<open>try\<close> block of \<open>leaveQueue\<close> awaits \<open>releaseReservedStock\<close> right
  after the \<open>splice\<close> and \<open>checkProductAvailability\<close> (a \<open>findOne\<close>) after the
  \<open>queue.left\<close> event; the \<open>catch\<close> branch returns false with the state reached so
  far.\<close>

definition leaveQueue ::
  "DbCalls \<Rightarrow> string \<Rightarrow> string \<Rightarrow> string option \<Rightarrow> state \<Rightarrow> bool \<times> state" where
  "leaveQueue db uid pid qidOpt s =
     (case map_of (productQueues s) pid of
        None \<Rightarrow> (False, s)
      | Some productQueue \<Rightarrow>
          (case findIndex (matchesLeave uid qidOpt) (items productQueue) of
             None \<Rightarrow> (False, s)
           | Some itemIndex \<Rightarrow>
               let removedItem = items productQueue ! itemIndex;
                   pq' = productQueue\<lparr>items := splice1 itemIndex (items productQueue)\<rparr>;
                   s1 = s\<lparr>productQueues := AList.update pid pq' (productQueues s)\<rparr>
               in if updateOneRejects db then (False, s1)
                  else
                    let s2 = releaseReservedStock pid (quantity removedItem) s1;
                        s3 = removeUserQueue uid pid s2;
                        s4 = updateQueuePositions pq' s3;
                        s5 = emit (QueueLeft uid pid (itemId removedItem) ''manual'') s4
                    in if findOneRejects db then (False, s5)
                       else (True, checkProductAvailability pid s5)))"

text \<open>\<open>leaveQueue\<close> never rejects, \<open>updateActualStock\<close> does nothing and the
  listeners of \<open>payment.processed\<close> only log, so the \<open>try\<close> block of
  \<open>processSuccessfulPayment\<close> runs to its \<open>return true\<close>.\<close>

definition processSuccessfulPayment ::
  "DbCalls \<Rightarrow> string \<Rightarrow> string \<Rightarrow> int \<Rightarrow> state \<Rightarrow> bool \<times> state" where
  "processSuccessfulPayment db uid pid qty s =
     (let (left, s1) = leaveQueue db uid pid None s;
          s2 = updateActualStock pid qty s1;
          s3 = emit (PaymentProcessed uid pid qty) s2
      in (True, s3))"

subsection \<open>cleanupExpiredItems\<close>

text \<open>One pass of the inner loop: the expired item is looked up by id in the current
  list; when found, that element is removed, the expired item's quantity is released,
  its user's set loses the product and a timeout event is emitted.\<close>

definition cleanupItem :: "string \<Rightarrow> QueueItem \<Rightarrow> ProductQueue \<times> state \<Rightarrow> ProductQueue \<times> state" where
  "cleanupItem pid expiredItem = (\<lambda>(pq, s).
     (case findIndex (\<lambda>item. itemId item = itemId expiredItem) (items pq) of
        None \<Rightarrow> (pq, s)
      | Some itemIndex \<Rightarrow>
          let pq' = pq\<lparr>items := splice1 itemIndex (items pq)\<rparr>;
              s1 = releaseReservedStock pid (quantity expiredItem) s;
              s2 = removeUserQueue (userId expiredItem) pid s1;
              s3 = emit (QueueTimeout (userId expiredItem) pid (itemId expiredItem)) s2
          in (pq', s3)))"

text \<open>The body of the outer loop for one entry of the table. The queue object is
  changed in place by \<open>splice\<close>, so the table holds the changed queue; it is written
  back here, and the entry is deleted when its list is empty.\<close>

definition cleanupQueue :: "int \<Rightarrow> string \<times> ProductQueue \<Rightarrow> state \<Rightarrow> state" where
  "cleanupQueue now = (\<lambda>(pid, productQueue) s.
     let expiredItems = filter (\<lambda>item. expiresAt item \<le> now) (items productQueue);
         (pq', s1) = fold (cleanupItem pid) expiredItems (productQueue, s);
         s2 = (if length expiredItems > 0
               then checkProductAvailability pid (updateQueuePositions pq' s1)
               else s1)
     in if length (items pq') = 0
        then s2\<lparr>productQueues := AList.delete pid (productQueues s2)\<rparr>
        else s2\<lparr>productQueues := AList.update pid pq' (productQueues s2)\<rparr>)"

definition cleanupExpiredItems :: "int \<Rightarrow> state \<Rightarrow> state" where
  "cleanupExpiredItems now s = fold (cleanupQueue now) (productQueues s) s"

subsection \<open>Quantities the properties speak about\<close>

text \<open>The total quantity held by the pending entries of a resource's queue, and the
  stock of the resource as the product collection reports it.\<close>

definition reservedTotal :: "state \<Rightarrow> string \<Rightarrow> int" where
  "reservedTotal s pid =
     (case map_of (productQueues s) pid of
        None \<Rightarrow> 0
      | Some pq \<Rightarrow> sum_list (map quantity (items pq)))"

definition availableStock :: "state \<Rightarrow> string \<Rightarrow> int" where
  "availableStock s pid = (case products s pid of None \<Rightarrow> 0 | Some p \<Rightarrow> stock p)"


text \<open>The entries of a queue that a cleanup at time \<open>now\<close> treats as expired, and
  the others.\<close>

definition expiredAt :: "int \<Rightarrow> ProductQueue \<Rightarrow> QueueItem list" where
  "expiredAt now pq = filter (\<lambda>item. expiresAt item \<le> now) (items pq)"

definition liveAt :: "int \<Rightarrow> ProductQueue \<Rightarrow> QueueItem list" where
  "liveAt now pq = filter (\<lambda>item. now < expiresAt item) (items pq)"

text \<open>Keys of a JavaScript \<open>Map\<close> are unique, and queue ids are generated to be
  unique (\<open>generateQueueId\<close>: clock reading and random suffix).\<close>

definition uniqueKeys :: "state \<Rightarrow> bool" where
  "uniqueKeys s = distinct (map fst (productQueues s))"

definition uniqueIds :: "state \<Rightarrow> bool" where
  "uniqueIds s = list_all (\<lambda>entry. distinct (map itemId (items (snd entry)))) (productQueues s)"

text \<open>What the cleanup does for one expired entry that it finds in the list, apart
  from the removal from the list: the three statements after \<open>splice\<close>.\<close>

definition timeoutEvent :: "string \<Rightarrow> QueueItem \<Rightarrow> event" where
  "timeoutEvent pid e = QueueTimeout (userId e) pid (itemId e)"

definition expireEffects :: "string \<Rightarrow> QueueItem \<Rightarrow> state \<Rightarrow> state" where
  "expireEffects pid e s =
     emit (timeoutEvent pid e)
       (removeUserQueue (userId e) pid (releaseReservedStock pid (quantity e) s))"


subsection \<open>Scenario states\<close>

definition state0 :: state where
  "state0 = \<lparr> products = [''R'' \<mapsto> \<lparr> stock = 3 \<rparr>], productQueues = [],
              userQueues = Map.empty, events = [] \<rparr>"

definition envA :: JoinEnv where
  "envA = \<lparr> newQueueId = ''queue_1000_a'', nowTimestamp = 1000, nowExpiresAt = 1000,
            nowReservedUntil = 1000 \<rparr>"

definition envB :: JoinEnv where
  "envB = \<lparr> newQueueId = ''queue_2000_b'', nowTimestamp = 2000, nowExpiresAt = 2000,
            nowReservedUntil = 2000 \<rparr>"

definition itemA :: QueueItem where
  "itemA = \<lparr> itemId = ''queue_1000_a'', userId = ''A'', productId = ''R'', quantity = 2,
             timestamp = 1000, expiresAt = 901000, userEmail = ''ann@shop.test'',
             userName = ''Ann'', reservedUntil = 901000 \<rparr>"

definition itemB :: QueueItem where
  "itemB = \<lparr> itemId = ''queue_2000_b'', userId = ''B'', productId = ''R'', quantity = 1,
             timestamp = 2000, expiresAt = 902000, userEmail = ''bob@shop.test'',
             userName = ''Bob'', reservedUntil = 902000 \<rparr>"

definition itemC :: QueueItem where
  "itemC = \<lparr> itemId = ''queue_3000_c'', userId = ''C'', productId = ''R'', quantity = 3,
             timestamp = 3000, expiresAt = 903000, userEmail = ''cyd@shop.test'',
             userName = ''Cyd'', reservedUntil = 903000 \<rparr>"

definition queueR :: ProductQueue where
  "queueR = \<lparr> queueProductId = ''R'', maxQueueSize = 10, items = [itemA, itemB, itemC],
              processingTimeout = 900000, isActive = True \<rparr>"

text \<open>Three users hold 2 + 1 + 3 units of a product that had 10 in stock.\<close>

definition state3 :: state where
  "state3 = \<lparr> products = [''R'' \<mapsto> \<lparr> stock = 4 \<rparr>], productQueues = [(''R'', queueR)],
              userQueues = [''A'' \<mapsto> {''R''}, ''B'' \<mapsto> {''R''}, ''C'' \<mapsto> {''R''}],
              events = [] \<rparr>"

text \<open>A queue filled by the service itself: ten users join with quantity 1 for a
  product with 15 in stock, which gives capacity \<open>min 10 30 = 10\<close>.\<close>

definition state15 :: state where
  "state15 = \<lparr> products = [''R'' \<mapsto> \<lparr> stock = 15 \<rparr>], productQueues = [],
               userQueues = Map.empty, events = [] \<rparr>"

definition envFor :: "string \<Rightarrow> JoinEnv" where
  "envFor u = \<lparr> newQueueId = ''queue_1000_'' @ u, nowTimestamp = 1000, nowExpiresAt = 1000,
               nowReservedUntil = 1000 \<rparr>"

definition joinAll :: "string list \<Rightarrow> state \<Rightarrow> state" where
  "joinAll us s = fold (\<lambda>u st. snd (joinQueue allReturn (envFor u) u ''R'' 1 [] u st)) us s"

definition tenUsers :: "string list" where
  "tenUsers = [''U0'', ''U1'', ''U2'', ''U3'', ''U4'', ''U5'', ''U6'', ''U7'', ''U8'', ''U9'']"

definition stateFull :: state where
  "stateFull = joinAll tenUsers state15"

text \<open>User A joins for 2 units of a product with 3 in stock.\<close>

definition stateJoined :: state where
  "stateJoined = snd (joinQueue allReturn envA ''A'' ''R'' 2 ''ann@shop.test'' ''Ann'' state0)"

text \<open>A queue of capacity 2 (created when the stock was 1) that holds two entries;
  the stock has been replenished to 5 since.\<close>

definition queueTwo :: ProductQueue where
  "queueTwo = \<lparr> queueProductId = ''R'', maxQueueSize = 2, items = [itemA, itemB],
                processingTimeout = 900000, isActive = True \<rparr>"

definition stateTwoFull :: state where
  "stateTwoFull = \<lparr> products = [''R'' \<mapsto> \<lparr> stock = 5 \<rparr>], productQueues = [(''R'', queueTwo)],
                    userQueues = [''A'' \<mapsto> {''R''}, ''B'' \<mapsto> {''R''}], events = [] \<rparr>"

text \<open>A join or leave whose \<open>updateOne\<close> is rejected, and one whose \<open>findOne\<close> is.\<close>

definition updateRejected :: DbCalls where
  "updateRejected = \<lparr> findOneRejects = False, updateOneRejects = True \<rparr>"

definition findRejected :: DbCalls where
  "findRejected = \<lparr> findOneRejects = True, updateOneRejects = False \<rparr>"

text \<open>The full queue of \<open>stateTwoFull\<close> after its product has been taken out of the
  collection.\<close>

definition stateOrphan :: state where
  "stateOrphan = stateTwoFull\<lparr>products := Map.empty\<rparr>"

section \<open>Basic facts about the helpers\<close>

lemma findIndex_None_iff: "findIndex P xs = None \<longleftrightarrow> (\<forall>x\<in>set xs. \<not> P x)"
  by (induction xs) auto

lemma findIndex_Some_lt: "findIndex P xs = Some i \<Longrightarrow> i < length xs"
  by (induction xs arbitrary: i) (auto split: if_splits)

lemma findIndex_Some_sat: "findIndex P xs = Some i \<Longrightarrow> P (xs ! i)"
  by (induction xs arbitrary: i) (auto split: if_splits)

lemma length_splice1: "i < length xs \<Longrightarrow> length (splice1 i xs) = length xs - 1"
  by (simp add: splice1_def)

lemma nth_splice1_before: "j < i \<Longrightarrow> i < length xs \<Longrightarrow> splice1 i xs ! j = xs ! j"
  by (simp add: splice1_def nth_append)

lemma nth_splice1_after: "i \<le> j \<Longrightarrow> Suc j < length xs \<Longrightarrow> splice1 i xs ! j = xs ! Suc j"
  by (simp add: splice1_def nth_append min_def)

lemma length_positionEvents: "length (positionEvents k xs) = length xs"
  by (induction xs arbitrary: k) auto

lemma nth_positionEvents:
  "j < length xs \<Longrightarrow>
   positionEvents k xs ! j =
     QueuePositionUpdated (userId (xs ! j)) (productId (xs ! j)) (itemId (xs ! j))
       (int (k + j) + 1) (calculateEstimatedWaitTime (int (k + j) + 1))"
proof (induction xs arbitrary: k j)
  case Nil
  then show ?case by simp
next
  case (Cons x xs)
  then show ?case by (cases j) auto
qed

lemma positionEvents_quantity:
  "positionEvents k (map (\<lambda>item. item\<lparr>quantity := f item\<rparr>) xs) = positionEvents k xs"
  by (induction xs arbitrary: k) auto

lemma update_fresh: "map_of al k = None \<Longrightarrow> AList.update k v al = al @ [(k, v)]"
  by (induction al) (auto split: if_splits)

lemmas join_defs = joinQueue_def failure_def isUserInQueue_def initializeProductQueue_def
  markProductUnavailable_def reserveStock_def incStock_def emit_def Let_def allReturn_def

lemmas leave_defs = leaveQueue_def matchesLeave_def splice1_def releaseReservedStock_def
  incStock_def removeUserQueue_def updateQueuePositions_def emit_def
  checkProductAvailability_def Let_def

lemmas scenario_defs = state0_def envA_def envB_def itemA_def itemB_def itemC_def queueR_def
  state3_def stateJoined_def queueTwo_def stateTwoFull_def stateOrphan_def
  allReturn_def updateRejected_def findRejected_def MSG_FAILED_def DEFAULT_QUEUE_SIZE_def DEFAULT_TIMEOUT_def
  MSG_NOT_FOUND_def MSG_INSUFFICIENT_STOCK_def MSG_ALREADY_QUEUED_def MSG_QUEUE_FULL_def
  MSG_JOINED_def calculateEstimatedWaitTime_def

lemma productQueues_emit [simp]: "productQueues (emit e s) = productQueues s"
  by (simp add: emit_def)

lemma productQueues_updateQueuePositions [simp]:
  "productQueues (updateQueuePositions pq s) = productQueues s"
  by (simp add: updateQueuePositions_def)

lemma productQueues_removeUserQueue [simp]:
  "productQueues (removeUserQueue uid pid s) = productQueues s"
  by (simp add: removeUserQueue_def split: option.splits)

lemma productQueues_incStock [simp]: "productQueues (incStock pid d s) = productQueues s"
  by (simp add: incStock_def split: option.splits)

lemma productQueues_releaseReservedStock [simp]:
  "productQueues (releaseReservedStock pid q s) = productQueues s"
  by (simp add: releaseReservedStock_def)

lemma events_removeUserQueue [simp]: "events (removeUserQueue uid pid s) = events s"
  by (simp add: removeUserQueue_def split: option.splits)

lemma events_incStock [simp]: "events (incStock pid d s) = events s"
  by (simp add: incStock_def split: option.splits)

lemma events_releaseReservedStock [simp]: "events (releaseReservedStock pid q s) = events s"
  by (simp add: releaseReservedStock_def)

lemma events_emit [simp]: "events (emit e s) = events s @ [e]"
  by (simp add: emit_def)

lemma events_updateQueuePositions [simp]:
  "events (updateQueuePositions pq s) = events s @ positionEvents 0 (items pq)"
  by (simp add: updateQueuePositions_def)

lemma products_emit [simp]: "products (emit e s) = products s"
  by (simp add: emit_def)

lemma products_updateQueuePositions [simp]:
  "products (updateQueuePositions pq s) = products s"
  by (simp add: updateQueuePositions_def)

lemma products_removeUserQueue [simp]: "products (removeUserQueue uid pid s) = products s"
  by (simp add: removeUserQueue_def split: option.splits)

lemma products_incStock:
  "products (incStock pid d s) k =
     (if k = pid then map_option (\<lambda>p. p\<lparr>stock := stock p + d\<rparr>) (products s k)
      else products s k)"
  by (simp add: incStock_def split: option.splits)

lemma userQueues_emit [simp]: "userQueues (emit e s) = userQueues s"
  by (simp add: emit_def)

lemma userQueues_updateQueuePositions [simp]:
  "userQueues (updateQueuePositions pq s) = userQueues s"
  by (simp add: updateQueuePositions_def)

lemma userQueues_incStock [simp]: "userQueues (incStock pid d s) = userQueues s"
  by (simp add: incStock_def split: option.splits)

lemma userQueues_releaseReservedStock [simp]:
  "userQueues (releaseReservedStock pid q s) = userQueues s"
  by (simp add: releaseReservedStock_def)



section \<open>joinQueue\<close>

lemma success_failure [simp]: "\<not> success (failure msg)"
  by (simp add: failure_def)

lemma failure_inject [simp]: "failure m = failure m' \<longleftrightarrow> m = m'"
  by (simp add: failure_def)


lemma join_find_rejected:
  "findOneRejects db \<Longrightarrow> joinQueue db env uid pid qty email name s = (failure MSG_FAILED, s)"
  by (simp add: joinQueue_def)

lemma join_not_found:
  "\<not> findOneRejects db \<Longrightarrow> products s pid = None \<Longrightarrow>
   joinQueue db env uid pid qty email name s = (failure MSG_NOT_FOUND, s)"
  by (simp add: joinQueue_def)

lemma join_insufficient:
  "\<not> findOneRejects db \<Longrightarrow> products s pid = Some product \<Longrightarrow> stock product < qty \<Longrightarrow>
   joinQueue db env uid pid qty email name s = (failure MSG_INSUFFICIENT_STOCK, s)"
  by (simp add: joinQueue_def)

lemma join_already:
  "\<not> findOneRejects db \<Longrightarrow> products s pid = Some product \<Longrightarrow> qty \<le> stock product \<Longrightarrow>
   isUserInQueue s uid pid \<Longrightarrow>
   joinQueue db env uid pid qty email name s = (failure MSG_ALREADY_QUEUED, s)"
  by (simp add: joinQueue_def)

lemma join_full:
  "\<not> findOneRejects db \<Longrightarrow> products s pid = Some product \<Longrightarrow> qty \<le> stock product \<Longrightarrow>
   \<not> isUserInQueue s uid pid \<Longrightarrow>
   map_of (productQueues s) pid = Some pq \<Longrightarrow> maxQueueSize pq \<le> int (length (items pq)) \<Longrightarrow>
   joinQueue db env uid pid qty email name s = (failure MSG_QUEUE_FULL, s)"
  by (simp add: joinQueue_def markProductUnavailable_def)

lemma join_full_fresh:
  "\<not> findOneRejects db \<Longrightarrow> products s pid = Some product \<Longrightarrow> qty \<le> stock product \<Longrightarrow>
   \<not> isUserInQueue s uid pid \<Longrightarrow>
   map_of (productQueues s) pid = None \<Longrightarrow> min DEFAULT_QUEUE_SIZE (stock product * 2) \<le> 0 \<Longrightarrow>
   joinQueue db env uid pid qty email name s =
     (failure MSG_QUEUE_FULL,
      s\<lparr>productQueues := productQueues s @
          [(pid, \<lparr> queueProductId = pid, maxQueueSize = min DEFAULT_QUEUE_SIZE (stock product * 2),
                   items = [], processingTimeout = DEFAULT_TIMEOUT, isActive = True \<rparr>)]\<rparr>)"
  by (simp add: joinQueue_def markProductUnavailable_def initializeProductQueue_def update_fresh
      Let_def)

text \<open>The join that passes the four checks: the entry is pushed and the index updated;
  then \<open>reserveStock\<close> returns, or it is rejected and the \<open>catch\<close> branch answers.\<close>

lemma join_pushed:
  assumes "\<not> findOneRejects db"
    and "products s pid = Some product"
    and "qty \<le> stock product"
    and "\<not> isUserInQueue s uid pid"
    and "pq = (case map_of (productQueues s) pid of
                 Some q \<Rightarrow> q
               | None \<Rightarrow> fst (initializeProductQueue pid (stock product) s))"
    and "int (length (items pq)) < maxQueueSize pq"
    and "item = \<lparr> itemId = newQueueId env, userId = uid, productId = pid, quantity = qty,
                  timestamp = nowTimestamp env,
                  expiresAt = nowExpiresAt env + processingTimeout pq,
                  userEmail = email, userName = name,
                  reservedUntil = nowReservedUntil env + processingTimeout pq \<rparr>"
    and "s3 = s\<lparr> productQueues := AList.update pid (pq\<lparr>items := items pq @ [item]\<rparr>)
                   (productQueues s),
                 userQueues := (userQueues s)
                   (uid \<mapsto> insert pid (case userQueues s uid of None \<Rightarrow> {} | Some S \<Rightarrow> S)) \<rparr>"
  shows "joinQueue db env uid pid qty email name s =
    (if updateOneRejects db then (failure MSG_FAILED, s3)
     else
      (\<lparr> success = True, position = Some (int (length (items pq)) + 1),
          estimatedWaitTime = Some (calculateEstimatedWaitTime (int (length (items pq)) + 1)),
          queueId = Some (newQueueId env), message = MSG_JOINED \<rparr>,
       s3\<lparr> products := (products s)(pid \<mapsto> product\<lparr>stock := stock product - qty\<rparr>),
           events := events s @
             [QueueJoined uid pid (newQueueId env) (int (length (items pq)) + 1)] \<rparr>))"
proof (cases "map_of (productQueues s) pid")
  case None
  with assms show ?thesis
    by (auto simp: joinQueue_def failure_def isUserInQueue_def initializeProductQueue_def
        markProductUnavailable_def reserveStock_def incStock_def emit_def Let_def min_def
        split: if_splits)
next
  case (Some q)
  with assms show ?thesis
    by (simp add: joinQueue_def failure_def isUserInQueue_def initializeProductQueue_def
        markProductUnavailable_def reserveStock_def incStock_def emit_def Let_def add.commute)
qed

lemma join_success:
  assumes "\<not> findOneRejects db"
    and "\<not> updateOneRejects db"
    and "products s pid = Some product"
    and "qty \<le> stock product"
    and "\<not> isUserInQueue s uid pid"
    and "pq = (case map_of (productQueues s) pid of
                 Some q \<Rightarrow> q
               | None \<Rightarrow> fst (initializeProductQueue pid (stock product) s))"
    and "int (length (items pq)) < maxQueueSize pq"
  shows "joinQueue db env uid pid qty email name s =
    (\<lparr> success = True, position = Some (int (length (items pq)) + 1),
        estimatedWaitTime = Some (calculateEstimatedWaitTime (int (length (items pq)) + 1)),
        queueId = Some (newQueueId env), message = MSG_JOINED \<rparr>,
     s\<lparr> productQueues := AList.update pid
            (pq\<lparr>items := items pq @
               [\<lparr> itemId = newQueueId env, userId = uid, productId = pid, quantity = qty,
                   timestamp = nowTimestamp env,
                   expiresAt = nowExpiresAt env + processingTimeout pq,
                   userEmail = email, userName = name,
                   reservedUntil = nowReservedUntil env + processingTimeout pq \<rparr>]\<rparr>)
            (productQueues s),
        userQueues := (userQueues s)
            (uid \<mapsto> insert pid (case userQueues s uid of None \<Rightarrow> {} | Some S \<Rightarrow> S)),
        products := (products s)(pid \<mapsto> product\<lparr>stock := stock product - qty\<rparr>),
        events := events s @ [QueueJoined uid pid (newQueueId env) (int (length (items pq)) + 1)] \<rparr>)"
  using join_pushed [OF assms(1,3-7) refl refl, of env email name] assms(2)
  by simp

text \<open>The ways a call of \<open>joinQueue\<close> can end, with the state each leaves.\<close>

lemma join_outcomes:
  "snd (joinQueue db env uid pid qty email name s) = s \<or>
   (\<exists>product. products s pid = Some product \<and> map_of (productQueues s) pid = None \<and>
      qty \<le> stock product \<and> min DEFAULT_QUEUE_SIZE (stock product * 2) \<le> 0 \<and>
      snd (joinQueue db env uid pid qty email name s) =
        s\<lparr>productQueues := productQueues s @
            [(pid, \<lparr> queueProductId = pid,
                     maxQueueSize = min DEFAULT_QUEUE_SIZE (stock product * 2),
                     items = [], processingTimeout = DEFAULT_TIMEOUT, isActive = True \<rparr>)]\<rparr>) \<or>
   (\<exists>product pq item.
      products s pid = Some product \<and>
      pq = (case map_of (productQueues s) pid of
              Some q \<Rightarrow> q
            | None \<Rightarrow> fst (initializeProductQueue pid (stock product) s)) \<and>
      quantity item = qty \<and>
      joinQueue db env uid pid qty email name s =
        (if updateOneRejects db
         then (failure MSG_FAILED,
               s\<lparr> productQueues := AList.update pid (pq\<lparr>items := items pq @ [item]\<rparr>)
                      (productQueues s),
                  userQueues := (userQueues s)
                    (uid \<mapsto> insert pid (case userQueues s uid of None \<Rightarrow> {} | Some S \<Rightarrow> S)) \<rparr>)
         else (\<lparr> success = True, position = Some (int (length (items pq)) + 1),
                 estimatedWaitTime =
                   Some (calculateEstimatedWaitTime (int (length (items pq)) + 1)),
                 queueId = Some (newQueueId env), message = MSG_JOINED \<rparr>,
               s\<lparr> productQueues := AList.update pid (pq\<lparr>items := items pq @ [item]\<rparr>)
                      (productQueues s),
                  userQueues := (userQueues s)
                    (uid \<mapsto> insert pid (case userQueues s uid of None \<Rightarrow> {} | Some S \<Rightarrow> S)),
                  products := (products s)(pid \<mapsto> product\<lparr>stock := stock product - qty\<rparr>),
                  events := events s @
                    [QueueJoined uid pid (newQueueId env) (int (length (items pq)) + 1)] \<rparr>)))"
proof (cases "findOneRejects db")
  case True
  then show ?thesis by (simp add: join_find_rejected)
next
  case find: False
  show ?thesis
  proof (cases "products s pid")
    case None
    with find show ?thesis by (simp add: join_not_found)
  next
    case (Some product)
    show ?thesis
    proof (cases "stock product < qty")
      case True
      with find Some show ?thesis by (simp add: join_insufficient)
    next
      case ge: False
      show ?thesis
      proof (cases "isUserInQueue s uid pid")
        case True
        with find Some ge show ?thesis by (simp add: join_already)
      next
        case notin: False
        define pq where "pq = (case map_of (productQueues s) pid of
                   Some q \<Rightarrow> q
                 | None \<Rightarrow> fst (initializeProductQueue pid (stock product) s))"
        show ?thesis
        proof (cases "int (length (items pq)) < maxQueueSize pq")
          case True
          define item where "item = \<lparr> itemId = newQueueId env, userId = uid, productId = pid,
                     quantity = qty, timestamp = nowTimestamp env,
                     expiresAt = nowExpiresAt env + processingTimeout pq,
                     userEmail = email, userName = name,
                     reservedUntil = nowReservedUntil env + processingTimeout pq \<rparr>"
          have q: "quantity item = qty"
            by (simp add: item_def)
          from ge have le: "qty \<le> stock product"
            by simp
          note join_pushed [OF find Some le notin pq_def True item_def refl]
          with Some pq_def q show ?thesis
            by (intro disjI2) (rule exI [of _ product], rule exI [of _ pq],
                rule exI [of _ item], simp)
        next
          case full: False
          show ?thesis
          proof (cases "map_of (productQueues s) pid")
            case None
            with full have "min DEFAULT_QUEUE_SIZE (stock product * 2) \<le> 0"
              by (auto simp: pq_def initializeProductQueue_def Let_def min_def split: if_splits)
            from join_full_fresh [OF find \<open>products s pid = Some product\<close> _ notin None this,
                of qty env email name] ge \<open>products s pid = Some product\<close> None this
            show ?thesis by simp
          next
            case (Some q)
            with full have "maxQueueSize q \<le> int (length (items q))"
              by (simp add: pq_def)
            from join_full [OF find \<open>products s pid = Some product\<close> _ notin Some this,
                of qty env email name] ge
            show ?thesis by simp
          qed
        qed
      qed
    qed
  qed
qed

text \<open>At a queue that holds \<open>maxQueueSize\<close> entries or more no call of \<open>joinQueue\<close>
  reaches the push, whatever the database does.\<close>

lemma join_full_fails:
  assumes "map_of (productQueues s) pid = Some pq"
    and "maxQueueSize pq \<le> int (length (items pq))"
  shows "\<not> success (fst (joinQueue db env uid pid qty email name s)) \<and>
         snd (joinQueue db env uid pid qty email name s) = s"
proof (cases "findOneRejects db")
  case True
  then show ?thesis by (simp add: join_find_rejected)
next
  case find: False
  show ?thesis
  proof (cases "products s pid")
    case None
    with find show ?thesis by (simp add: join_not_found)
  next
    case (Some product)
    show ?thesis
    proof (cases "stock product < qty")
      case True
      with find Some show ?thesis by (simp add: join_insufficient)
    next
      case ge: False
      show ?thesis
      proof (cases "isUserInQueue s uid pid")
        case True
        with find Some ge show ?thesis by (simp add: join_already)
      next
        case False
        from join_full [OF find Some _ False assms, of qty env email name] ge
        show ?thesis by simp
      qed
    qed
  qed
qed




text \<open>\<open>maxQueueSize\<close> is set when the queue is created and no join changes it.\<close>

lemma join_table:
  "map_of (productQueues (snd (joinQueue db env uid r qty email name s))) =
     map_of (productQueues s) \<or>
   (\<exists>product. products s r = Some product \<and> map_of (productQueues s) r = None \<and>
      (\<exists>q. maxQueueSize q = min DEFAULT_QUEUE_SIZE (stock product * 2) \<and>
           map_of (productQueues (snd (joinQueue db env uid r qty email name s))) =
             (map_of (productQueues s))(r \<mapsto> q))) \<or>
   (\<exists>q its. map_of (productQueues s) r = Some q \<and>
      map_of (productQueues (snd (joinQueue db env uid r qty email name s))) =
        (map_of (productQueues s))(r \<mapsto> q\<lparr>items := its\<rparr>))"
proof -
  let ?s' = "snd (joinQueue db env uid r qty email name s)"
  from join_outcomes [of db env uid r qty email name s]
  consider (same) "?s' = s"
    | (fresh) product where "products s r = Some product" "map_of (productQueues s) r = None"
        "?s' = s\<lparr>productQueues := productQueues s @
            [(r, \<lparr> queueProductId = r,
                   maxQueueSize = min DEFAULT_QUEUE_SIZE (stock product * 2),
                   items = [], processingTimeout = DEFAULT_TIMEOUT, isActive = True \<rparr>)]\<rparr>"
    | (pushed) product q item where "products s r = Some product"
        "q = (case map_of (productQueues s) r of
              Some q \<Rightarrow> q
            | None \<Rightarrow> fst (initializeProductQueue r (stock product) s))"
        "productQueues ?s' = AList.update r (q\<lparr>items := items q @ [item]\<rparr>) (productQueues s)"
    by (elim disjE exE conjE) (simp_all split: if_splits)
  then show ?thesis
  proof cases
    case same
    then show ?thesis by simp
  next
    case fresh
    let ?q = "\<lparr> queueProductId = r,
                maxQueueSize = min DEFAULT_QUEUE_SIZE (stock product * 2),
                items = [], processingTimeout = DEFAULT_TIMEOUT, isActive = True \<rparr>"
    have "productQueues ?s' = AList.update r ?q (productQueues s)"
      by (simp add: fresh(3) update_fresh [OF fresh(2)])
    then have "map_of (productQueues ?s') = (map_of (productQueues s))(r \<mapsto> ?q)"
      by (simp add: update_conv')
    moreover have "maxQueueSize ?q = min DEFAULT_QUEUE_SIZE (stock product * 2)"
      by simp
    ultimately show ?thesis
      using fresh(1,2) by blast
  next
    case pushed
    have m: "map_of (productQueues ?s') =
               (map_of (productQueues s))(r \<mapsto> q\<lparr>items := items q @ [item]\<rparr>)"
      by (simp add: pushed(3) update_conv')
    show ?thesis
    proof (cases "map_of (productQueues s) r")
      case None
      with pushed(2) have "maxQueueSize (q\<lparr>items := items q @ [item]\<rparr>) =
                           min DEFAULT_QUEUE_SIZE (stock product * 2)"
        by (simp add: initializeProductQueue_def Let_def)
      with m None pushed(1) show ?thesis
        by blast
    next
      case (Some q0)
      with pushed(2) have "q = q0"
        by simp
      with m Some show ?thesis
        by blast
    qed
  qed
qed

lemma join_keeps_maxQueueSize:
  assumes "map_of (productQueues s) pid = Some pq"
    and "map_of (productQueues (snd (joinQueue db env uid r qty email name s))) pid = Some pq'"
  shows "maxQueueSize pq' = maxQueueSize pq"
  using join_table [of db env uid r qty email name s] assms
  by (auto split: if_splits)

lemma join_sets_maxQueueSize:
  assumes "products s pid = Some product"
    and "map_of (productQueues s) pid = None"
    and "map_of (productQueues (snd (joinQueue db env uid pid qty email name s))) pid = Some pq'"
  shows "maxQueueSize pq' = min DEFAULT_QUEUE_SIZE (2 * stock product)"
  using join_table [of db env uid pid qty email name s] assms
  by (auto simp: mult.commute split: if_splits)


section \<open>leaveQueue and processSuccessfulPayment\<close>

lemma leaveQueue_absent:
  assumes "case map_of (productQueues s) pid of None \<Rightarrow> True
           | Some pq \<Rightarrow> findIndex (matchesLeave uid qid) (items pq) = None"
  shows "leaveQueue db uid pid qid s = (False, s)"
  using assms by (simp add: leaveQueue_def split: option.splits)

lemma findIndex_matchesLeave_None:
  "uid \<notin> userId ` set xs \<Longrightarrow> findIndex (matchesLeave uid qid) xs = None"
  by (auto simp: findIndex_None_iff matchesLeave_def)

text \<open>The leave that finds its entry: the list is spliced; then the release returns or
  is rejected, and after the events the lookup returns or is rejected.\<close>

lemma leaveQueue_found:
  assumes "map_of (productQueues s) pid = Some pq"
    and "findIndex (matchesLeave uid qid) (items pq) = Some i"
    and "s1 = s\<lparr>productQueues :=
                  AList.update pid (pq\<lparr>items := splice1 i (items pq)\<rparr>) (productQueues s)\<rparr>"
    and "s5 = emit (QueueLeft uid pid (itemId (items pq ! i)) ''manual'')
                (updateQueuePositions (pq\<lparr>items := splice1 i (items pq)\<rparr>)
                  (removeUserQueue uid pid
                    (releaseReservedStock pid (quantity (items pq ! i)) s1)))"
  shows "leaveQueue db uid pid qid s =
    (if updateOneRejects db then (False, s1)
     else if findOneRejects db then (False, s5)
     else (True, s5))"
  using assms by (simp add: leaveQueue_def checkProductAvailability_def Let_def)

lemma leaveQueue_found_returns:
  assumes "map_of (productQueues s) pid = Some pq"
    and "findIndex (matchesLeave uid qid) (items pq) = Some i"
    and "\<not> updateOneRejects db"
    and "\<not> findOneRejects db"
  shows "leaveQueue db uid pid qid s =
    (True,
     emit (QueueLeft uid pid (itemId (items pq ! i)) ''manual'')
       (updateQueuePositions (pq\<lparr>items := splice1 i (items pq)\<rparr>)
         (removeUserQueue uid pid
           (releaseReservedStock pid (quantity (items pq ! i))
             (s\<lparr>productQueues :=
                  AList.update pid (pq\<lparr>items := splice1 i (items pq)\<rparr>) (productQueues s)\<rparr>)))))"
  using leaveQueue_found [OF assms(1,2) refl refl, of db] assms(3,4) by simp

lemma leaveQueue_found_table:
  assumes "map_of (productQueues s) pid = Some pq"
    and "findIndex (matchesLeave uid qid) (items pq) = Some i"
  shows "productQueues (snd (leaveQueue db uid pid qid s)) =
           AList.update pid (pq\<lparr>items := splice1 i (items pq)\<rparr>) (productQueues s)"
  using leaveQueue_found [OF assms refl refl, of db] by simp

lemma leave_keeps_maxQueueSize:
  assumes "map_of (productQueues (snd (leaveQueue db uid r qid s))) pid = Some pq'"
  shows "\<exists>pq0. map_of (productQueues s) pid = Some pq0 \<and> maxQueueSize pq' = maxQueueSize pq0"
proof (cases "map_of (productQueues s) r")
  case None
  with assms show ?thesis by (simp add: leaveQueue_absent)
next
  case (Some pq)
  show ?thesis
  proof (cases "findIndex (matchesLeave uid qid) (items pq)")
    case None
    with Some assms show ?thesis by (simp add: leaveQueue_absent)
  next
    case found: (Some i)
    from assms have "((map_of (productQueues s))(r \<mapsto> pq\<lparr>items := splice1 i (items pq)\<rparr>)) pid
                       = Some pq'"
      by (simp add: leaveQueue_found_table [OF Some found] update_conv')
    with Some show ?thesis
      by (cases "pid = r") auto
  qed
qed


section \<open>cleanupExpiredItems\<close>

subsection \<open>Removal by id from a list with distinct ids\<close>

lemma splice1_Cons_Suc: "splice1 (Suc i) (x # xs) = x # splice1 i xs"
  by (simp add: splice1_def)

lemma splice1_removes_key:
  "distinct (map f xs) \<Longrightarrow> findIndex (\<lambda>y. f y = a) xs = Some i \<Longrightarrow>
   splice1 i xs = filter (\<lambda>y. f y \<noteq> a) xs"
proof (induction xs arbitrary: i)
  case Nil
  then show ?case by simp
next
  case (Cons x xs)
  show ?case
  proof (cases "f x = a")
    case True
    with Cons.prems have "i = 0" and "a \<notin> f ` set xs"
      by auto
    then have "filter (\<lambda>y. f y \<noteq> a) xs = xs"
      by (auto simp: filter_id_conv)
    with True \<open>i = 0\<close> show ?thesis
      by (simp add: splice1_def)
  next
    case False
    with Cons.prems obtain i' where i': "findIndex (\<lambda>y. f y = a) xs = Some i'" "i = Suc i'"
      by auto
    from Cons.prems have "distinct (map f xs)"
      by simp
    from Cons.IH [OF this i'(1)] False i'(2) show ?thesis
      by (simp add: splice1_Cons_Suc)
  qed
qed

lemma findIndex_member:
  "a \<in> f ` set xs \<Longrightarrow> \<exists>i. findIndex (\<lambda>y. f y = a) xs = Some i"
proof -
  assume "a \<in> f ` set xs"
  then have "findIndex (\<lambda>y. f y = a) xs \<noteq> None"
    by (auto simp: findIndex_None_iff)
  then show ?thesis by auto
qed

lemma filter_not_expired:
  assumes "distinct (map f xs)"
  shows "filter (\<lambda>y. f y \<notin> f ` set (filter P xs)) xs = filter (\<lambda>y. \<not> P y) xs"
proof (rule filter_cong [OF refl])
  fix y
  assume y: "y \<in> set xs"
  from assms have inj: "inj_on f (set xs)"
    by (simp add: distinct_map)
  show "(f y \<notin> f ` set (filter P xs)) = (\<not> P y)"
  proof
    assume "f y \<notin> f ` set (filter P xs)"
    with y show "\<not> P y" by auto
  next
    assume n: "\<not> P y"
    show "f y \<notin> f ` set (filter P xs)"
    proof
      assume "f y \<in> f ` set (filter P xs)"
      then obtain z where z: "z \<in> set xs" "P z" "f z = f y"
        by auto
      with inj y have "z = y"
        by (auto dest: inj_onD)
      with z n show False by simp
    qed
  qed
qed

subsection \<open>The inner loop\<close>

lemma cleanupItem_present:
  assumes "distinct (map itemId (items pq))"
    and "itemId e \<in> itemId ` set (items pq)"
  shows "cleanupItem pid e (pq, s) =
           (pq\<lparr>items := filter (\<lambda>item. itemId item \<noteq> itemId e) (items pq)\<rparr>,
            expireEffects pid e s)"
proof -
  from findIndex_member [OF assms(2)]
  obtain i where i: "findIndex (\<lambda>item. itemId item = itemId e) (items pq) = Some i"
    by auto
  from splice1_removes_key [OF assms(1) i]
  have "splice1 i (items pq) = filter (\<lambda>item. itemId item \<noteq> itemId e) (items pq)" .
  with i show ?thesis
    by (simp add: cleanupItem_def expireEffects_def timeoutEvent_def Let_def)
qed

lemma fold_cleanupItem:
  assumes "distinct (map itemId (items pq))"
    and "distinct (map itemId es)"
    and "itemId ` set es \<subseteq> itemId ` set (items pq)"
  shows "fold (cleanupItem pid) es (pq, s) =
           (pq\<lparr>items := filter (\<lambda>item. itemId item \<notin> itemId ` set es) (items pq)\<rparr>,
            fold (expireEffects pid) es s)"
  using assms
proof (induction es arbitrary: pq s)
  case Nil
  then show ?case by simp
next
  case (Cons e es)
  let ?pq1 = "pq\<lparr>items := filter (\<lambda>item. itemId item \<noteq> itemId e) (items pq)\<rparr>"
  from Cons.prems have e: "itemId e \<in> itemId ` set (items pq)"
    by simp
  have step: "cleanupItem pid e (pq, s) = (?pq1, expireEffects pid e s)"
    using Cons.prems(1) e by (rule cleanupItem_present)
  have d1: "distinct (map itemId (items ?pq1))"
    using Cons.prems(1) by (simp add: distinct_map_filter)
  have d2: "distinct (map itemId es)"
    using Cons.prems(2) by simp
  have sub: "itemId ` set es \<subseteq> itemId ` set (items ?pq1)"
  proof
    fix a
    assume a: "a \<in> itemId ` set es"
    from Cons.prems(2) have "itemId e \<notin> itemId ` set es"
      by simp
    with a have "a \<noteq> itemId e"
      by blast
    moreover from a Cons.prems(3) have "a \<in> itemId ` set (items pq)"
      by auto
    ultimately show "a \<in> itemId ` set (items ?pq1)"
      by auto
  qed
  have "fold (cleanupItem pid) es (?pq1, expireEffects pid e s) =
          (?pq1\<lparr>items := filter (\<lambda>item. itemId item \<notin> itemId ` set es) (items ?pq1)\<rparr>,
           fold (expireEffects pid) es (expireEffects pid e s))"
    using d1 d2 sub by (rule Cons.IH)
  moreover have "filter (\<lambda>item. itemId item \<notin> itemId ` set es) (items ?pq1) =
                 filter (\<lambda>item. itemId item \<notin> itemId ` set (e # es)) (items pq)"
    by (auto intro: filter_cong)
  ultimately show ?case
    using step by simp
qed

lemma productQueues_fold_expire [simp]:
  "productQueues (fold (expireEffects pid) es s) = productQueues s"
  by (induction es arbitrary: s) (simp_all add: expireEffects_def)


lemma products_expireEffects:
  "products (expireEffects pid e s) k =
     (if k = pid then map_option (\<lambda>p. p\<lparr>stock := stock p + quantity e\<rparr>) (products s k)
      else products s k)"
  by (simp add: expireEffects_def releaseReservedStock_def products_incStock)

lemma products_fold_expire:
  "products (fold (expireEffects pid) es s) k =
     (if k = pid
      then map_option (\<lambda>p. p\<lparr>stock := stock p + sum_list (map quantity es)\<rparr>) (products s k)
      else products s k)"
proof (induction es arbitrary: s)
  case Nil
  then show ?case by (simp add: option.map_ident)
next
  case (Cons e es)
  show ?case
    by (simp add: Cons.IH products_expireEffects option.map_comp o_def add.assoc)
qed



subsection \<open>One queue\<close>

lemma liveAt_conv: "liveAt now pq = filter (\<lambda>item. \<not> expiresAt item \<le> now) (items pq)"
  by (simp add: liveAt_def not_le)

lemma cleanupQueue_eq:
  assumes "distinct (map itemId (items pq))"
  shows "cleanupQueue now (pid, pq) s =
    (let s1 = fold (expireEffects pid) (expiredAt now pq) s;
         s2 = (if expiredAt now pq = [] then s1
               else updateQueuePositions (pq\<lparr>items := liveAt now pq\<rparr>) s1)
     in if liveAt now pq = []
        then s2\<lparr>productQueues := AList.delete pid (productQueues s)\<rparr>
        else s2\<lparr>productQueues := AList.update pid (pq\<lparr>items := liveAt now pq\<rparr>) (productQueues s)\<rparr>)"
proof -
  have d: "distinct (map itemId (expiredAt now pq))"
    using assms by (simp add: expiredAt_def distinct_map_filter)
  have sub: "itemId ` set (expiredAt now pq) \<subseteq> itemId ` set (items pq)"
    by (auto simp: expiredAt_def)
  have live: "filter (\<lambda>item. itemId item \<notin> itemId ` set (expiredAt now pq)) (items pq) =
              liveAt now pq"
    unfolding expiredAt_def liveAt_conv using assms by (rule filter_not_expired)
  have inner: "fold (cleanupItem pid) (expiredAt now pq) (pq, s) =
           (pq\<lparr>items := liveAt now pq\<rparr>, fold (expireEffects pid) (expiredAt now pq) s)"
    using fold_cleanupItem [OF assms d sub, of pid s] by (simp add: live)
  have "cleanupQueue now (pid, pq) s =
     (let expiredItems = expiredAt now pq;
         (pq', s1) = fold (cleanupItem pid) expiredItems (pq, s);
         s2 = (if length expiredItems > 0
               then checkProductAvailability pid (updateQueuePositions pq' s1)
               else s1)
     in if length (items pq') = 0
        then s2\<lparr>productQueues := AList.delete pid (productQueues s2)\<rparr>
        else s2\<lparr>productQueues := AList.update pid pq' (productQueues s2)\<rparr>)"
    by (simp add: cleanupQueue_def expiredAt_def)
  then show ?thesis
    by (simp add: inner Let_def checkProductAvailability_def)
qed

lemma productQueues_cleanupQueue:
  assumes "distinct (map itemId (items pq))"
  shows "productQueues (cleanupQueue now (pid, pq) s) =
     (if liveAt now pq = [] then AList.delete pid (productQueues s)
      else AList.update pid (pq\<lparr>items := liveAt now pq\<rparr>) (productQueues s))"
  by (simp add: cleanupQueue_eq [OF assms] Let_def)


lemma products_cleanupQueue:
  assumes "distinct (map itemId (items pq))"
  shows "products (cleanupQueue now (pid, pq) s) k =
     (if k = pid
      then map_option (\<lambda>p. p\<lparr>stock := stock p + sum_list (map quantity (expiredAt now pq))\<rparr>)
             (products s k)
      else products s k)"
  by (simp add: cleanupQueue_eq [OF assms] Let_def products_fold_expire option.map_ident)





subsection \<open>All queues\<close>



lemma map_of_fold_cleanup:
  "list_all (\<lambda>entry. distinct (map itemId (items (snd entry)))) xs \<Longrightarrow>
   distinct (map fst xs) \<Longrightarrow>
   map_of (productQueues (fold (cleanupQueue now) xs s)) k =
     (case map_of xs k of
        None \<Rightarrow> map_of (productQueues s) k
      | Some pq \<Rightarrow> if liveAt now pq = [] then None else Some (pq\<lparr>items := liveAt now pq\<rparr>))"
proof (induction xs arbitrary: s)
  case Nil
  then show ?case by simp
next
  case (Cons x xs)
  obtain pid pq where x: "x = (pid, pq)"
    by (cases x)
  from Cons.prems have d: "distinct (map itemId (items pq))"
    and rest: "list_all (\<lambda>entry. distinct (map itemId (items (snd entry)))) xs"
    and keys: "distinct (map fst xs)" and fresh: "pid \<notin> fst ` set xs"
    by (simp_all add: x)
  from fresh have none: "map_of xs pid = None"
    by (simp add: map_of_eq_None_iff)
  show ?case
    using none
    by (auto simp: x Cons.IH [OF rest keys] productQueues_cleanupQueue [OF d]
        update_conv' delete_conv' split: option.splits)
qed

lemma products_fold_cleanup:
  "list_all (\<lambda>entry. distinct (map itemId (items (snd entry)))) xs \<Longrightarrow>
   distinct (map fst xs) \<Longrightarrow>
   products (fold (cleanupQueue now) xs s) k =
     (case map_of xs k of
        None \<Rightarrow> products s k
      | Some pq \<Rightarrow>
          map_option (\<lambda>p. p\<lparr>stock := stock p + sum_list (map quantity (expiredAt now pq))\<rparr>)
            (products s k))"
proof (induction xs arbitrary: s)
  case Nil
  then show ?case by simp
next
  case (Cons x xs)
  obtain pid pq where x: "x = (pid, pq)"
    by (cases x)
  from Cons.prems have d: "distinct (map itemId (items pq))"
    and rest: "list_all (\<lambda>entry. distinct (map itemId (items (snd entry)))) xs"
    and keys: "distinct (map fst xs)" and fresh: "pid \<notin> fst ` set xs"
    by (simp_all add: x)
  from fresh have none: "map_of xs pid = None"
    by (simp add: map_of_eq_None_iff)
  show ?case
    using none
    by (auto simp: x Cons.IH [OF rest keys] products_cleanupQueue [OF d] split: option.splits)
qed


subsection \<open>Counting the timeout events of a tick\<close>









section \<open>Reserved quantity and stock\<close>

lemma splice1_0: "splice1 0 (x # xs) = xs"
  by (simp add: splice1_def)

lemma sum_list_splice1:
  fixes f :: "'a \<Rightarrow> int"
  shows "i < length xs \<Longrightarrow> sum_list (map f (splice1 i xs)) = sum_list (map f xs) - f (xs ! i)"
proof (induction xs arbitrary: i)
  case Nil
  then show ?case by simp
next
  case (Cons x xs)
  show ?case
  proof (cases i)
    case 0
    then show ?thesis by (simp add: splice1_0)
  next
    case (Suc j)
    with Cons.prems have "j < length xs"
      by simp
    from Cons.IH [OF this] Suc show ?thesis
      by (simp add: splice1_Cons_Suc)
  qed
qed

lemma sum_list_partition_le:
  fixes f :: "'a \<Rightarrow> int" and g :: "'a \<Rightarrow> int"
  shows "sum_list (map f (filter (\<lambda>x. now < g x) xs)) +
         sum_list (map f (filter (\<lambda>x. g x \<le> now) xs)) = sum_list (map f xs)"
  by (induction xs) auto

lemma sum_list_live_expired:
  "sum_list (map quantity (liveAt now pq)) + sum_list (map quantity (expiredAt now pq)) =
   sum_list (map quantity (items pq))"
  unfolding liveAt_def expiredAt_def by (rule sum_list_partition_le)

lemma map_of_snoc:
  "map_of (al @ [(k, v)]) k' =
     (case map_of al k' of None \<Rightarrow> (if k' = k then Some v else None) | Some x \<Rightarrow> Some x)"
  by (induction al) auto

lemma reservedTotal_cong:
  "map_of (productQueues s') k = map_of (productQueues s) k \<Longrightarrow>
   reservedTotal s' k = reservedTotal s k"
  by (simp add: reservedTotal_def)

lemma availableStock_cong:
  "products s' k = products s k \<Longrightarrow> availableStock s' k = availableStock s k"
  by (simp add: availableStock_def)

text \<open>A join and a leave whose database calls return leave the sum of the reserved
  quantity and the stock of every product of the collection as it was.\<close>

lemma join_conserves:
  assumes "products s k \<noteq> None" and "\<not> updateOneRejects db"
  shows "reservedTotal (snd (joinQueue db env uid pid qty email name s)) k +
         availableStock (snd (joinQueue db env uid pid qty email name s)) k =
         reservedTotal s k + availableStock s k"
proof -
  let ?s' = "snd (joinQueue db env uid pid qty email name s)"
  from join_outcomes [of db env uid pid qty email name s] assms(2)
  consider (same) "?s' = s"
    | (fresh) product where "products s pid = Some product" "map_of (productQueues s) pid = None"
        "?s' = s\<lparr>productQueues := productQueues s @
            [(pid, \<lparr> queueProductId = pid,
                     maxQueueSize = min DEFAULT_QUEUE_SIZE (stock product * 2),
                     items = [], processingTimeout = DEFAULT_TIMEOUT, isActive = True \<rparr>)]\<rparr>"
    | (joined) product pq item where "products s pid = Some product"
        "pq = (case map_of (productQueues s) pid of
              Some q \<Rightarrow> q
            | None \<Rightarrow> fst (initializeProductQueue pid (stock product) s))"
        "quantity item = qty"
        "?s' = s\<lparr> productQueues := AList.update pid (pq\<lparr>items := items pq @ [item]\<rparr>) (productQueues s),
           userQueues := (userQueues s)
             (uid \<mapsto> insert pid (case userQueues s uid of None \<Rightarrow> {} | Some S \<Rightarrow> S)),
           products := (products s)(pid \<mapsto> product\<lparr>stock := stock product - qty\<rparr>),
           events := events s @
             [QueueJoined uid pid (newQueueId env) (int (length (items pq)) + 1)] \<rparr>"
    by (elim disjE exE conjE) simp_all
  then show ?thesis
  proof cases
    case same
    then show ?thesis by simp
  next
    case fresh
    have "availableStock ?s' k = availableStock s k"
      by (rule availableStock_cong) (simp add: fresh(3))
    moreover have "reservedTotal ?s' k = reservedTotal s k"
    proof (cases "k = pid")
      case True
      with fresh(2) show ?thesis
        by (simp add: fresh(3) reservedTotal_def map_of_snoc del: map_of_append)
    next
      case False
      then show ?thesis
        by (simp add: fresh(3) reservedTotal_def map_of_snoc del: map_of_append
            split: option.splits)
    qed
    ultimately show ?thesis by simp
  next
    case joined
    show ?thesis
    proof (cases "k = pid")
      case True
      have pq0: "sum_list (map quantity (items pq)) = reservedTotal s pid"
        using joined(2)
        by (cases "map_of (productQueues s) pid")
          (simp_all add: reservedTotal_def initializeProductQueue_def Let_def)
      have "reservedTotal ?s' pid = sum_list (map quantity (items pq)) + qty"
        by (simp add: joined(3,4) reservedTotal_def update_conv')
      with pq0 have "reservedTotal ?s' pid = reservedTotal s pid + qty"
        by simp
      moreover have "availableStock ?s' pid = availableStock s pid - qty"
        by (simp add: joined(1,4) availableStock_def)
      ultimately show ?thesis
        using True by simp
    next
      case False
      have "reservedTotal ?s' k = reservedTotal s k"
        by (rule reservedTotal_cong) (simp add: joined(4) update_conv' False)
      moreover have "availableStock ?s' k = availableStock s k"
        by (rule availableStock_cong) (simp add: joined(4) False)
      ultimately show ?thesis by simp
    qed
  qed
qed

lemma leave_conserves:
  assumes "products s k \<noteq> None" and "\<not> updateOneRejects db"
  shows "reservedTotal (snd (leaveQueue db uid pid qid s)) k +
         availableStock (snd (leaveQueue db uid pid qid s)) k =
         reservedTotal s k + availableStock s k"
proof (cases "map_of (productQueues s) pid")
  case None
  then show ?thesis by (simp add: leaveQueue_absent)
next
  case (Some pq)
  show ?thesis
  proof (cases "findIndex (matchesLeave uid qid) (items pq)")
    case None
    with Some show ?thesis by (simp add: leaveQueue_absent)
  next
    case found: (Some i)
    have i: "i < length (items pq)"
      using found by (rule findIndex_Some_lt)
    from assms obtain p where p: "products s k = Some p"
      by auto
    let ?s' = "snd (leaveQueue db uid pid qid s)"
    have s': "?s' = emit (QueueLeft uid pid (itemId (items pq ! i)) ''manual'')
       (updateQueuePositions (pq\<lparr>items := splice1 i (items pq)\<rparr>)
         (removeUserQueue uid pid
           (releaseReservedStock pid (quantity (items pq ! i))
             (s\<lparr>productQueues :=
                  AList.update pid (pq\<lparr>items := splice1 i (items pq)\<rparr>) (productQueues s)\<rparr>))))"
      using leaveQueue_found [OF Some found refl refl, of db] assms(2) by simp
    show ?thesis
    proof (cases "k = pid")
      case True
      have "reservedTotal ?s' pid = reservedTotal s pid - quantity (items pq ! i)"
        using Some by (simp add: s' reservedTotal_def update_conv' sum_list_splice1 [OF i])
      moreover have "availableStock ?s' pid = availableStock s pid + quantity (items pq ! i)"
        using p True
        by (simp add: s' availableStock_def releaseReservedStock_def products_incStock)
      ultimately show ?thesis
        using True by simp
    next
      case False
      have "reservedTotal ?s' k = reservedTotal s k"
        by (rule reservedTotal_cong) (simp add: s' update_conv' False)
      moreover have "availableStock ?s' k = availableStock s k"
        by (rule availableStock_cong)
          (simp add: s' releaseReservedStock_def products_incStock False)
      ultimately show ?thesis by simp
    qed
  qed
qed

lemma cleanup_conserves:
  assumes "products s k \<noteq> None" and "uniqueKeys s" and "uniqueIds s"
  shows "reservedTotal (cleanupExpiredItems now s) k +
         availableStock (cleanupExpiredItems now s) k =
         reservedTotal s k + availableStock s k"
proof -
  from assms(2,3) have keys: "distinct (map fst (productQueues s))"
    and ids: "list_all (\<lambda>entry. distinct (map itemId (items (snd entry)))) (productQueues s)"
    by (simp_all add: uniqueKeys_def uniqueIds_def)
  from assms(1) obtain p where p: "products s k = Some p"
    by auto
  note tab = map_of_fold_cleanup [OF ids keys, of now s k]
  note prod = products_fold_cleanup [OF ids keys, of now s k]
  show ?thesis
  proof (cases "map_of (productQueues s) k")
    case None
    with tab prod show ?thesis
      by (simp add: cleanupExpiredItems_def reservedTotal_def availableStock_def)
  next
    case (Some pq)
    have r: "reservedTotal (cleanupExpiredItems now s) k = sum_list (map quantity (liveAt now pq))"
      using tab Some by (simp add: cleanupExpiredItems_def reservedTotal_def)
    have a: "availableStock (cleanupExpiredItems now s) k =
             stock p + sum_list (map quantity (expiredAt now pq))"
      using prod Some p by (simp add: cleanupExpiredItems_def availableStock_def)
    have "reservedTotal s k + availableStock s k = sum_list (map quantity (items pq)) + stock p"
      using Some p by (simp add: reservedTotal_def availableStock_def)
    with r a sum_list_live_expired [of now pq] show ?thesis
      by simp
  qed
qed

section \<open>The claims about joinQueue\<close>

text \<open>
  Claim C7. A join whose database calls return and that passes all four checks (the
  product exists, its stock covers the quantity, the user is not in the index for this
  product, the queue it finds or creates is below its capacity) returns success with the
  1-based position of the new entry, the wait computed from that position and the
  generated id; the queue of the product is the old list with the new entry at its end,
  whose \<open>expiresAt\<close> is the clock reading plus the queue's \<open>processingTimeout\<close>; the
  stock is lowered by the quantity; the user's set contains the product; and one
  \<open>queue.joined\<close> event with that position is appended. Nothing else in the state
  changes.
\<close>

theorem C7_join_appends_and_reserves:
  assumes "\<not> findOneRejects db"
    and "\<not> updateOneRejects db"
    and "products s pid = Some product"
    and "qty \<le> stock product"
    and "\<not> isUserInQueue s uid pid"
    and "pq = (case map_of (productQueues s) pid of
                 Some q \<Rightarrow> q
               | None \<Rightarrow> fst (initializeProductQueue pid (stock product) s))"
    and "int (length (items pq)) < maxQueueSize pq"
    and "item = \<lparr> itemId = newQueueId env, userId = uid, productId = pid, quantity = qty,
                  timestamp = nowTimestamp env,
                  expiresAt = nowExpiresAt env + processingTimeout pq,
                  userEmail = email, userName = name,
                  reservedUntil = nowReservedUntil env + processingTimeout pq \<rparr>"
    and "joinQueue db env uid pid qty email name s = (r, s')"
  shows "r = \<lparr> success = True, position = Some (int (length (items pq)) + 1),
              estimatedWaitTime = Some (calculateEstimatedWaitTime (int (length (items pq)) + 1)),
              queueId = Some (newQueueId env), message = MSG_JOINED \<rparr> \<and>
         map_of (productQueues s') = (map_of (productQueues s))(pid \<mapsto> pq\<lparr>items := items pq @ [item]\<rparr>) \<and>
         products s' = (products s)(pid \<mapsto> product\<lparr>stock := stock product - qty\<rparr>) \<and>
         userQueues s' = (userQueues s)
            (uid \<mapsto> insert pid (case userQueues s uid of None \<Rightarrow> {} | Some S \<Rightarrow> S)) \<and>
         isUserInQueue s' uid pid \<and>
         events s' = events s @
            [QueueJoined uid pid (newQueueId env) (int (length (items pq)) + 1)]"
proof -
  from join_success [OF assms(1-7), of env email name] assms(8,9)
  have r: "r = \<lparr> success = True, position = Some (int (length (items pq)) + 1),
              estimatedWaitTime = Some (calculateEstimatedWaitTime (int (length (items pq)) + 1)),
              queueId = Some (newQueueId env), message = MSG_JOINED \<rparr>"
    and s': "s' = s\<lparr> productQueues := AList.update pid (pq\<lparr>items := items pq @ [item]\<rparr>)
                       (productQueues s),
        userQueues := (userQueues s)
            (uid \<mapsto> insert pid (case userQueues s uid of None \<Rightarrow> {} | Some S \<Rightarrow> S)),
        products := (products s)(pid \<mapsto> product\<lparr>stock := stock product - qty\<rparr>),
        events := events s @ [QueueJoined uid pid (newQueueId env) (int (length (items pq)) + 1)] \<rparr>"
    by simp_all
  from s' have "map_of (productQueues s') =
      (map_of (productQueues s))(pid \<mapsto> pq\<lparr>items := items pq @ [item]\<rparr>)"
    by (simp add: update_conv')
  moreover from s' have "isUserInQueue s' uid pid"
    by (simp add: isUserInQueue_def)
  ultimately show ?thesis using r s' by simp
qed

theorem C7_witness:
  "\<not> findOneRejects allReturn \<and> \<not> updateOneRejects allReturn \<and>
   products state0 ''R'' = Some \<lparr> stock = 3 \<rparr> \<and> (2::int) \<le> stock \<lparr> stock = 3 \<rparr> \<and>
   \<not> isUserInQueue state0 ''A'' ''R'' \<and>
   fst (joinQueue allReturn envA ''A'' ''R'' 2 ''ann@shop.test'' ''Ann'' state0) =
     \<lparr> success = True, position = Some 1, estimatedWaitTime = Some 120000,
       queueId = Some ''queue_1000_a'', message = MSG_JOINED \<rparr> \<and>
   map_of (productQueues stateJoined) ''R'' =
     Some \<lparr> queueProductId = ''R'', maxQueueSize = 6, items = [itemA],
            processingTimeout = 900000, isActive = True \<rparr> \<and>
   products stateJoined ''R'' = Some \<lparr> stock = 1 \<rparr> \<and>
   userQueues stateJoined ''A'' = Some {''R''} \<and>
   events stateJoined = [QueueJoined ''A'' ''R'' ''queue_1000_a'' 1]"
proof -
  have d: "\<not> findOneRejects allReturn \<and> \<not> updateOneRejects allReturn"
    by (simp add: allReturn_def)
  have h1: "products state0 ''R'' = Some \<lparr> stock = 3 \<rparr>"
    by (simp add: scenario_defs)
  have h2: "(2::int) \<le> stock \<lparr> stock = 3 \<rparr>"
    by simp
  have h3: "\<not> isUserInQueue state0 ''A'' ''R''"
    by (simp add: scenario_defs isUserInQueue_def)
  have h5: "int (length (items (case map_of (productQueues state0) ''R'' of
                 Some q \<Rightarrow> q
               | None \<Rightarrow> fst (initializeProductQueue ''R'' (stock \<lparr> stock = 3 \<rparr>) state0))))
            < maxQueueSize (case map_of (productQueues state0) ''R'' of
                 Some q \<Rightarrow> q
               | None \<Rightarrow> fst (initializeProductQueue ''R'' (stock \<lparr> stock = 3 \<rparr>) state0))"
    by (simp add: scenario_defs initializeProductQueue_def Let_def)
  have h7: "joinQueue allReturn envA ''A'' ''R'' 2 ''ann@shop.test'' ''Ann'' state0 =
      (fst (joinQueue allReturn envA ''A'' ''R'' 2 ''ann@shop.test'' ''Ann'' state0), stateJoined)"
    by (simp add: stateJoined_def)
  from C7_join_appends_and_reserves
         [OF conjunct1 [OF d] conjunct2 [OF d] h1 h2 h3 refl h5 refl h7] d h1 h2 h3
  show ?thesis
    by (simp add: scenario_defs initializeProductQueue_def Let_def)
qed



section \<open>The claims about leaveQueue, the wait estimate and the payment\<close>

text \<open>
  Claim C8. A leave that finds the user's entry at index \<open>i\<close> returns true exactly
  when neither of its database calls is rejected. It leaves the queue of the product with
  the old list without its element \<open>i\<close>: the entries before \<open>i\<close> keep their index,
  every entry that was at an index \<open>j > i\<close> is at \<open>j - 1\<close>, so the order of the
  remaining entries is kept. When it returns true, the events of the call are one
  \<open>queue.position.updated\<close> per remaining entry, in list order, the entry at new index
  \<open>j\<close> getting position \<open>j + 1\<close> and the wait computed from \<open>j + 1\<close>, followed by
  the \<open>queue.left\<close> event.
\<close>

theorem C8_leave_renumbers:
  assumes "map_of (productQueues s) pid = Some pq"
    and "findIndex (matchesLeave uid qid) (items pq) = Some i"
    and "leaveQueue db uid pid qid s = (ok, s')"
    and "rest = take i (items pq) @ drop (Suc i) (items pq)"
  shows "(ok \<longleftrightarrow> \<not> updateOneRejects db \<and> \<not> findOneRejects db) \<and>
         map_of (productQueues s') pid = Some (pq\<lparr>items := rest\<rparr>) \<and>
         length rest = length (items pq) - 1 \<and>
         (\<forall>j<i. rest ! j = items pq ! j) \<and>
         (\<forall>j. i < j \<and> j < length (items pq) \<longrightarrow> rest ! (j - 1) = items pq ! j) \<and>
         (ok \<longrightarrow> events s' = events s @ positionEvents 0 rest @
                       [QueueLeft uid pid (itemId (items pq ! i)) ''manual'']) \<and>
         length (positionEvents 0 rest) = length rest \<and>
         (\<forall>j<length rest.
            positionEvents 0 rest ! j =
              QueuePositionUpdated (userId (rest ! j)) (productId (rest ! j)) (itemId (rest ! j))
                (int j + 1) (calculateEstimatedWaitTime (int j + 1)))"
proof -
  have i: "i < length (items pq)"
    using assms(2) by (rule findIndex_Some_lt)
  have rest: "rest = splice1 i (items pq)"
    by (simp add: assms(4) splice1_def)
  note found = leaveQueue_found [OF assms(1,2) refl refl, of db]
  from found assms(3) have ok: "ok \<longleftrightarrow> \<not> updateOneRejects db \<and> \<not> findOneRejects db"
    by (auto split: if_splits)
  from leaveQueue_found_table [OF assms(1,2), of db] assms(3)
  have q: "map_of (productQueues s') pid = Some (pq\<lparr>items := rest\<rparr>)"
    by (simp add: rest update_conv')
  have len: "length rest = length (items pq) - 1"
    using i by (simp add: rest length_splice1)
  have before: "\<forall>j<i. rest ! j = items pq ! j"
    using i by (simp add: rest nth_splice1_before)
  have after: "\<forall>j. i < j \<and> j < length (items pq) \<longrightarrow> rest ! (j - 1) = items pq ! j"
  proof (intro allI impI)
    fix j
    assume j: "i < j \<and> j < length (items pq)"
    then have "i \<le> j - 1" and "Suc (j - 1) < length (items pq)"
      by arith+
    then have "splice1 i (items pq) ! (j - 1) = items pq ! Suc (j - 1)"
      by (rule nth_splice1_after)
    with j show "rest ! (j - 1) = items pq ! j"
      by (simp add: rest)
  qed
  have ev: "ok \<longrightarrow> events s' = events s @ positionEvents 0 rest @
                       [QueueLeft uid pid (itemId (items pq ! i)) ''manual'']"
  proof
    assume ok
    with ok found assms(3)
    have "s' = emit (QueueLeft uid pid (itemId (items pq ! i)) ''manual'')
       (updateQueuePositions (pq\<lparr>items := rest\<rparr>)
         (removeUserQueue uid pid
           (releaseReservedStock pid (quantity (items pq ! i))
             (s\<lparr>productQueues := AList.update pid (pq\<lparr>items := rest\<rparr>) (productQueues s)\<rparr>))))"
      by (simp add: rest)
    then show "events s' = events s @ positionEvents 0 rest @
                       [QueueLeft uid pid (itemId (items pq ! i)) ''manual'']"
      by simp
  qed
  have pos: "\<forall>j<length rest.
            positionEvents 0 rest ! j =
              QueuePositionUpdated (userId (rest ! j)) (productId (rest ! j)) (itemId (rest ! j))
                (int j + 1) (calculateEstimatedWaitTime (int j + 1))"
    by (simp add: nth_positionEvents)
  have lp: "length (positionEvents 0 rest) = length rest"
    by (rule length_positionEvents)
  show ?thesis
    by (intro conjI) (rule ok, rule q, rule len, rule before, rule after, rule ev, rule lp,
        rule pos)
qed

theorem C8_witness:
  "map_of (productQueues state3) ''R'' = Some queueR \<and>
   findIndex (matchesLeave ''B'' None) (items queueR) = Some 1 \<and>
   fst (leaveQueue allReturn ''B'' ''R'' None state3) \<and>
   map_of (productQueues (snd (leaveQueue allReturn ''B'' ''R'' None state3))) ''R'' =
     Some (queueR\<lparr>items := [itemA, itemC]\<rparr>) \<and>
   events (snd (leaveQueue allReturn ''B'' ''R'' None state3)) =
     [QueuePositionUpdated ''A'' ''R'' ''queue_1000_a'' 1 120000,
      QueuePositionUpdated ''C'' ''R'' ''queue_3000_c'' 2 240000,
      QueueLeft ''B'' ''R'' ''queue_2000_b'' ''manual'']"
proof -
  have h1: "map_of (productQueues state3) ''R'' = Some queueR"
    by (simp add: state3_def)
  have h2: "findIndex (matchesLeave ''B'' None) (items queueR) = Some 1"
    by (simp add: scenario_defs matchesLeave_def)
  have h3: "leaveQueue allReturn ''B'' ''R'' None state3 =
              (fst (leaveQueue allReturn ''B'' ''R'' None state3),
               snd (leaveQueue allReturn ''B'' ''R'' None state3))"
    by simp
  have items: "items queueR = [itemA, itemB, itemC]"
    by (simp add: queueR_def)
  have ev0: "events state3 = []"
    by (simp add: state3_def)
  have db: "\<not> updateOneRejects allReturn \<and> \<not> findOneRejects allReturn"
    by (simp add: allReturn_def)
  from C8_leave_renumbers [OF h1 h2 h3 refl] h1 h2 db
  show ?thesis
    by (simp add: items ev0 itemA_def itemB_def itemC_def calculateEstimatedWaitTime_def)
qed

text \<open>
  Claim C9. The estimated wait is \<open>position * 2 * 60 * 1000\<close>: it grows strictly
  with the position, and it is computed from the position alone, so the position events
  of a queue do not change when the quantities of its entries do.
\<close>

theorem C9_wait_strictly_increasing:
  "calculateEstimatedWaitTime p < calculateEstimatedWaitTime (p + 1) \<and>
   calculateEstimatedWaitTime p = 120000 * p \<and>
   positionEvents k (map (\<lambda>item. item\<lparr>quantity := f item\<rparr>) xs) = positionEvents k xs"
  by (simp add: calculateEstimatedWaitTime_def positionEvents_quantity)

text \<open>
  Claim C10. When the user has no entry in the queue of the product (or the product has
  no queue), \<open>processSuccessfulPayment\<close> reaches no database call, returns true and
  its only effect is the \<open>payment.processed\<close> event: the stock, the queues and the
  index are as before. The result is true for every call, with or without an entry.
\<close>

theorem C10_payment_without_entry:
  assumes "case map_of (productQueues s) pid of
             None \<Rightarrow> True
           | Some pq \<Rightarrow> uid \<notin> userId ` set (items pq)"
  shows "processSuccessfulPayment db uid pid qty s =
           (True, s\<lparr>events := events s @ [PaymentProcessed uid pid qty]\<rparr>) \<and>
         fst (processSuccessfulPayment db' uid' pid' qty' t) = True"
proof -
  have "leaveQueue db uid pid None s = (False, s)"
    using assms
    by (intro leaveQueue_absent) (auto simp: findIndex_matchesLeave_None split: option.splits)
  then have "processSuccessfulPayment db uid pid qty s =
           (True, s\<lparr>events := events s @ [PaymentProcessed uid pid qty]\<rparr>)"
    by (simp add: processSuccessfulPayment_def updateActualStock_def emit_def)
  moreover have "fst (processSuccessfulPayment db' uid' pid' qty' t) = True"
    by (simp add: processSuccessfulPayment_def Let_def split: prod.splits)
  ultimately show ?thesis by simp
qed

theorem C10_witness:
  "(case map_of (productQueues state3) ''R'' of
      None \<Rightarrow> True
    | Some pq \<Rightarrow> ''D'' \<notin> userId ` set (items pq)) \<and>
   processSuccessfulPayment allReturn ''D'' ''R'' 2 state3 =
     (True, state3\<lparr>events := [PaymentProcessed ''D'' ''R'' 2]\<rparr>) \<and>
   fst (processSuccessfulPayment allReturn ''A'' ''R'' 2 state3) = True"
proof -
  have h: "case map_of (productQueues state3) ''R'' of
      None \<Rightarrow> True
    | Some pq \<Rightarrow> ''D'' \<notin> userId ` set (items pq)"
    by (simp add: scenario_defs)
  have ev0: "events state3 = []"
    by (simp add: state3_def)
  from C10_payment_without_entry [OF h, of allReturn 2 allReturn "''A''" "''R''" 2 state3] h
  show ?thesis
    by (simp add: ev0)
qed

text \<open>
  Claim C1, evaluated on the code. User A joins for 2 units of a product with 3 in
  stock, which lowers the stock to 1. The payment then removes the entry and releases
  the hold, and \<open>updateActualStock\<close>, whose body is empty, takes nothing off: the stock
  is back at 3 instead of staying at 1.
\<close>

theorem C1_payment_leaves_stock_restored:
  "products state0 ''R'' = Some \<lparr> stock = 3 \<rparr> \<and>
   products stateJoined ''R'' = Some \<lparr> stock = 1 \<rparr> \<and>
   map_option items (map_of (productQueues stateJoined) ''R'') = Some [itemA] \<and>
   fst (processSuccessfulPayment allReturn ''A'' ''R'' 2 stateJoined) = True \<and>
   map_option items
     (map_of (productQueues (snd (processSuccessfulPayment allReturn ''A'' ''R'' 2 stateJoined))) ''R'') =
     Some [] \<and>
   products (snd (processSuccessfulPayment allReturn ''A'' ''R'' 2 stateJoined)) ''R'' = Some \<lparr> stock = 3 \<rparr>"
  by (simp add: scenario_defs join_defs leave_defs processSuccessfulPayment_def
      updateActualStock_def)

section \<open>The claims about the cleanup tick, conservation and capacity\<close>



text \<open>
  Claim C2, evaluated on the code. A product has 3 in stock and no queue: reserved
  quantity and stock add up to 3. User A joins for 2 units (2 reserved, 1 in stock).
  After the payment for these 2 units the queue is empty and the stock is 3 again: the
  sum is 3, although 2 of the 3 units are sold and 1 is left. In another run the
  \<open>updateOne\<close> of \<open>reserveStock\<close> is rejected: \<open>joinQueue\<close> returns the failure of
  its \<open>catch\<close> branch with the entry already in the queue and the stock untouched, so
  the sum is 5.
\<close>

theorem C2_sum_after_payment_and_rejected_reserve:
  "reservedTotal state0 ''R'' + availableStock state0 ''R'' = 3 \<and>
   reservedTotal stateJoined ''R'' = 2 \<and> availableStock stateJoined ''R'' = 1 \<and>
   fst (processSuccessfulPayment allReturn ''A'' ''R'' 2 stateJoined) = True \<and>
   reservedTotal (snd (processSuccessfulPayment allReturn ''A'' ''R'' 2 stateJoined)) ''R'' = 0 \<and>
   availableStock (snd (processSuccessfulPayment allReturn ''A'' ''R'' 2 stateJoined)) ''R'' = 3 \<and>
   fst (joinQueue updateRejected envA ''A'' ''R'' 2 ''ann@shop.test'' ''Ann'' state0) =
     failure MSG_FAILED \<and>
   reservedTotal
     (snd (joinQueue updateRejected envA ''A'' ''R'' 2 ''ann@shop.test'' ''Ann'' state0)) ''R'' = 2 \<and>
   availableStock
     (snd (joinQueue updateRejected envA ''A'' ''R'' 2 ''ann@shop.test'' ''Ann'' state0)) ''R'' = 3"
  by (simp add: reservedTotal_def availableStock_def scenario_defs join_defs leave_defs
      processSuccessfulPayment_def updateActualStock_def)




text \<open>
  Claim C3, as the code has it. A queue is created by \<open>initializeProductQueue\<close> with
  \<open>maxQueueSize = min 10 (2 * stock)\<close>, the stock being the one \<open>joinQueue\<close> has just
  read; no join, leave or cleanup changes the \<open>maxQueueSize\<close> of a queue that stays in
  the table. A join for a product whose queue holds \<open>maxQueueSize\<close> entries or more
  fails and leaves the state unchanged. Its result is decided by the first of the
  earlier steps that does not pass: the failure of the \<open>catch\<close> branch when the product
  lookup is rejected, the missing-product failure when there is no such product, the
  stock failure when the stock does not cover the quantity, the duplicate failure when
  the index has the user for this product; it is the capacity failure only when all of
  these pass.
\<close>

theorem C3_capacity_and_full_queue:
  "maxQueueSize (fst (initializeProductQueue pid stk s)) = min 10 (2 * stk) \<and>
   (products s pid = Some product \<and> map_of (productQueues s) pid = None \<and>
    map_of (productQueues (snd (joinQueue db env uid pid qty email name s))) pid = Some pq' \<longrightarrow>
      maxQueueSize pq' = min 10 (2 * stock product)) \<and>
   (map_of (productQueues s) pid = Some pq \<and>
    map_of (productQueues (snd (joinQueue db env uid r qty email name s))) pid = Some pq' \<longrightarrow>
      maxQueueSize pq' = maxQueueSize pq) \<and>
   (map_of (productQueues (snd (leaveQueue db uid r qid s))) pid = Some pq' \<longrightarrow>
      (\<exists>pq0. map_of (productQueues s) pid = Some pq0 \<and> maxQueueSize pq' = maxQueueSize pq0)) \<and>
   (uniqueKeys s \<and> uniqueIds s \<and>
    map_of (productQueues (cleanupExpiredItems now s)) pid = Some pq' \<longrightarrow>
      (\<exists>pq0. map_of (productQueues s) pid = Some pq0 \<and> maxQueueSize pq' = maxQueueSize pq0)) \<and>
   (map_of (productQueues s) pid = Some pq \<and> maxQueueSize pq \<le> int (length (items pq)) \<longrightarrow>
      \<not> success (fst (joinQueue db env uid pid qty email name s)) \<and>
      snd (joinQueue db env uid pid qty email name s) = s \<and>
      (findOneRejects db \<longrightarrow>
         fst (joinQueue db env uid pid qty email name s) = failure MSG_FAILED) \<and>
      (\<not> findOneRejects db \<and> products s pid = None \<longrightarrow>
         fst (joinQueue db env uid pid qty email name s) = failure MSG_NOT_FOUND) \<and>
      (\<not> findOneRejects db \<and> products s pid = Some product \<and> stock product < qty \<longrightarrow>
         fst (joinQueue db env uid pid qty email name s) = failure MSG_INSUFFICIENT_STOCK) \<and>
      (\<not> findOneRejects db \<and> products s pid = Some product \<and> qty \<le> stock product \<and>
       isUserInQueue s uid pid \<longrightarrow>
         fst (joinQueue db env uid pid qty email name s) = failure MSG_ALREADY_QUEUED) \<and>
      (\<not> findOneRejects db \<and> products s pid = Some product \<and> qty \<le> stock product \<and>
       \<not> isUserInQueue s uid pid \<longrightarrow>
         fst (joinQueue db env uid pid qty email name s) = failure MSG_QUEUE_FULL))"
proof -
  have a: "maxQueueSize (fst (initializeProductQueue pid stk s)) = min 10 (2 * stk)"
    by (simp add: initializeProductQueue_def Let_def DEFAULT_QUEUE_SIZE_def mult.commute)
  have b: "products s pid = Some product \<and> map_of (productQueues s) pid = None \<and>
    map_of (productQueues (snd (joinQueue db env uid pid qty email name s))) pid = Some pq' \<longrightarrow>
      maxQueueSize pq' = min 10 (2 * stock product)"
    using join_sets_maxQueueSize [of s pid product db env uid qty email name pq']
    by (simp add: DEFAULT_QUEUE_SIZE_def)
  have c: "map_of (productQueues s) pid = Some pq \<and>
    map_of (productQueues (snd (joinQueue db env uid r qty email name s))) pid = Some pq' \<longrightarrow>
      maxQueueSize pq' = maxQueueSize pq"
    using join_keeps_maxQueueSize [of s pid pq db env uid r qty email name pq']
    by blast
  have d: "map_of (productQueues (snd (leaveQueue db uid r qid s))) pid = Some pq' \<longrightarrow>
      (\<exists>pq0. map_of (productQueues s) pid = Some pq0 \<and> maxQueueSize pq' = maxQueueSize pq0)"
    using leave_keeps_maxQueueSize [of db uid r qid s pid pq']
    by blast
  have e: "uniqueKeys s \<and> uniqueIds s \<and>
    map_of (productQueues (cleanupExpiredItems now s)) pid = Some pq' \<longrightarrow>
      (\<exists>pq0. map_of (productQueues s) pid = Some pq0 \<and> maxQueueSize pq' = maxQueueSize pq0)"
  proof
    assume h: "uniqueKeys s \<and> uniqueIds s \<and>
      map_of (productQueues (cleanupExpiredItems now s)) pid = Some pq'"
    then have keys: "distinct (map fst (productQueues s))"
      and ids: "list_all (\<lambda>entry. distinct (map itemId (items (snd entry)))) (productQueues s)"
      by (simp_all add: uniqueKeys_def uniqueIds_def)
    from map_of_fold_cleanup [OF ids keys, of now s pid] h
    show "\<exists>pq0. map_of (productQueues s) pid = Some pq0 \<and> maxQueueSize pq' = maxQueueSize pq0"
      by (auto simp: cleanupExpiredItems_def split: option.splits if_splits)
  qed
  have f: "map_of (productQueues s) pid = Some pq \<and> maxQueueSize pq \<le> int (length (items pq)) \<longrightarrow>
      \<not> success (fst (joinQueue db env uid pid qty email name s)) \<and>
      snd (joinQueue db env uid pid qty email name s) = s \<and>
      (findOneRejects db \<longrightarrow>
         fst (joinQueue db env uid pid qty email name s) = failure MSG_FAILED) \<and>
      (\<not> findOneRejects db \<and> products s pid = None \<longrightarrow>
         fst (joinQueue db env uid pid qty email name s) = failure MSG_NOT_FOUND) \<and>
      (\<not> findOneRejects db \<and> products s pid = Some product \<and> stock product < qty \<longrightarrow>
         fst (joinQueue db env uid pid qty email name s) = failure MSG_INSUFFICIENT_STOCK) \<and>
      (\<not> findOneRejects db \<and> products s pid = Some product \<and> qty \<le> stock product \<and>
       isUserInQueue s uid pid \<longrightarrow>
         fst (joinQueue db env uid pid qty email name s) = failure MSG_ALREADY_QUEUED) \<and>
      (\<not> findOneRejects db \<and> products s pid = Some product \<and> qty \<le> stock product \<and>
       \<not> isUserInQueue s uid pid \<longrightarrow>
         fst (joinQueue db env uid pid qty email name s) = failure MSG_QUEUE_FULL)"
    using join_full_fails [of s pid pq db env uid qty email name]
      join_find_rejected [of db env uid pid qty email name s]
      join_not_found [of db s pid env uid qty email name]
      join_insufficient [of db s pid product qty env uid email name]
      join_already [of db s pid product qty uid env email name]
      join_full [of db s pid product qty uid pq env email name]
    by simp
  show ?thesis
    by (intro conjI) (rule a, rule b, rule c, rule d, rule e, rule f)
qed

theorem C3_witness:
  "products state0 ''R'' = Some \<lparr> stock = 3 \<rparr> \<and> map_of (productQueues state0) ''R'' = None \<and>
   map_of (productQueues stateJoined) ''R'' = Some (queueR\<lparr>maxQueueSize := 6, items := [itemA]\<rparr>) \<and>
   maxQueueSize (queueR\<lparr>maxQueueSize := 6, items := [itemA]\<rparr>) = min 10 (2 * stock \<lparr> stock = 3 \<rparr>) \<and>
   map_of (productQueues stateTwoFull) ''R'' = Some queueTwo \<and>
   maxQueueSize queueTwo \<le> int (length (items queueTwo)) \<and>
   products stateTwoFull ''R'' = Some \<lparr> stock = 5 \<rparr> \<and>
   \<not> isUserInQueue stateTwoFull ''D'' ''R'' \<and> isUserInQueue stateTwoFull ''B'' ''R'' \<and>
   fst (joinQueue allReturn envB ''D'' ''R'' 1 [] ''Dan'' stateTwoFull) = failure MSG_QUEUE_FULL \<and>
   snd (joinQueue allReturn envB ''D'' ''R'' 1 [] ''Dan'' stateTwoFull) = stateTwoFull \<and>
   fst (joinQueue allReturn envB ''B'' ''R'' 1 [] ''Bob'' stateTwoFull) =
     failure MSG_ALREADY_QUEUED \<and>
   snd (joinQueue allReturn envB ''B'' ''R'' 1 [] ''Bob'' stateTwoFull) = stateTwoFull \<and>
   fst (joinQueue allReturn envB ''D'' ''R'' 9 [] ''Dan'' stateTwoFull) =
     failure MSG_INSUFFICIENT_STOCK \<and>
   fst (joinQueue allReturn envB ''D'' ''R'' 1 [] ''Dan'' stateOrphan) = failure MSG_NOT_FOUND \<and>
   fst (joinQueue findRejected envB ''D'' ''R'' 1 [] ''Dan'' stateTwoFull) = failure MSG_FAILED \<and>
   uniqueKeys state3 \<and> uniqueIds state3 \<and>
   map_of (productQueues (snd (leaveQueue allReturn ''B'' ''R'' None state3))) ''R'' =
     Some (queueR\<lparr>items := [itemA, itemC]\<rparr>) \<and>
   (\<exists>pq0. map_of (productQueues state3) ''R'' = Some pq0 \<and>
      maxQueueSize (queueR\<lparr>items := [itemA, itemC]\<rparr>) = maxQueueSize pq0) \<and>
   map_of (productQueues (cleanupExpiredItems 902000 state3)) ''R'' =
     Some (queueR\<lparr>items := [itemC]\<rparr>) \<and>
   (\<exists>pq0. map_of (productQueues state3) ''R'' = Some pq0 \<and>
      maxQueueSize (queueR\<lparr>items := [itemC]\<rparr>) = maxQueueSize pq0)"
proof -
  have h0: "products state0 ''R'' = Some \<lparr> stock = 3 \<rparr> \<and> map_of (productQueues state0) ''R'' = None"
    by (simp add: state0_def)
  have j: "map_of (productQueues stateJoined) ''R'' =
             Some (queueR\<lparr>maxQueueSize := 6, items := [itemA]\<rparr>)"
    by (simp add: scenario_defs join_defs)
  have h2: "map_of (productQueues stateTwoFull) ''R'' = Some queueTwo \<and>
            maxQueueSize queueTwo \<le> int (length (items queueTwo)) \<and>
            products stateTwoFull ''R'' = Some \<lparr> stock = 5 \<rparr> \<and>
            \<not> isUserInQueue stateTwoFull ''D'' ''R'' \<and> isUserInQueue stateTwoFull ''B'' ''R''"
    by (simp add: scenario_defs isUserInQueue_def)
  have h3: "(1::int) \<le> stock \<lparr> stock = 5 \<rparr> \<and> stock \<lparr> stock = 5 \<rparr> < (9::int)"
    by simp
  have ho: "map_of (productQueues stateOrphan) ''R'' = Some queueTwo \<and>
            products stateOrphan ''R'' = None"
    by (simp add: scenario_defs)
  have db: "\<not> findOneRejects allReturn \<and> findOneRejects findRejected"
    by (simp add: allReturn_def findRejected_def)
  have l: "map_of (productQueues (snd (leaveQueue allReturn ''B'' ''R'' None state3))) ''R'' =
             Some (queueR\<lparr>items := [itemA, itemC]\<rparr>)"
    by (simp add: scenario_defs leave_defs)
  have c: "map_of (productQueues (cleanupExpiredItems 902000 state3)) ''R'' =
     Some (queueR\<lparr>items := [itemC]\<rparr>)"
    by (simp add: scenario_defs leave_defs cleanupExpiredItems_def cleanupQueue_def
        cleanupItem_def)
  have u: "uniqueKeys state3 \<and> uniqueIds state3"
    by (simp add: uniqueKeys_def uniqueIds_def scenario_defs)
  from C3_capacity_and_full_queue [where s = state0 and pid = "''R''" and env = envA
      and uid = "''A''" and qty = 2 and email = "''ann@shop.test''" and name = "''Ann''"
      and product = "\<lparr> stock = 3 \<rparr>" and db = allReturn
      and pq' = "queueR\<lparr>maxQueueSize := 6, items := [itemA]\<rparr>"]
    h0 j [unfolded stateJoined_def]
  have w1: "maxQueueSize (queueR\<lparr>maxQueueSize := 6, items := [itemA]\<rparr>) =
            min 10 (2 * stock \<lparr> stock = 3 \<rparr>)"
    by blast
  from C3_capacity_and_full_queue [where s = stateTwoFull and pid = "''R''" and env = envB
      and uid = "''D''" and qty = 1 and email = "[]" and name = "''Dan''"
      and product = "\<lparr> stock = 5 \<rparr>" and pq = queueTwo and db = allReturn]
    h2 h3 db
  have w2: "fst (joinQueue allReturn envB ''D'' ''R'' 1 [] ''Dan'' stateTwoFull) =
              failure MSG_QUEUE_FULL \<and>
            snd (joinQueue allReturn envB ''D'' ''R'' 1 [] ''Dan'' stateTwoFull) = stateTwoFull"
    by blast
  from C3_capacity_and_full_queue [where s = stateTwoFull and pid = "''R''" and env = envB
      and uid = "''B''" and qty = 1 and email = "[]" and name = "''Bob''"
      and product = "\<lparr> stock = 5 \<rparr>" and pq = queueTwo and db = allReturn]
    h2 h3 db
  have w3: "fst (joinQueue allReturn envB ''B'' ''R'' 1 [] ''Bob'' stateTwoFull) =
              failure MSG_ALREADY_QUEUED \<and>
            snd (joinQueue allReturn envB ''B'' ''R'' 1 [] ''Bob'' stateTwoFull) = stateTwoFull"
    by blast
  from C3_capacity_and_full_queue [where s = stateTwoFull and pid = "''R''" and env = envB
      and uid = "''D''" and qty = 9 and email = "[]" and name = "''Dan''"
      and product = "\<lparr> stock = 5 \<rparr>" and pq = queueTwo and db = allReturn]
    h2 h3 db
  have w4: "fst (joinQueue allReturn envB ''D'' ''R'' 9 [] ''Dan'' stateTwoFull) =
              failure MSG_INSUFFICIENT_STOCK"
    by blast
  from C3_capacity_and_full_queue [where s = stateOrphan and pid = "''R''" and env = envB
      and uid = "''D''" and qty = 1 and email = "[]" and name = "''Dan''"
      and pq = queueTwo and db = allReturn]
    ho h2 db
  have w5: "fst (joinQueue allReturn envB ''D'' ''R'' 1 [] ''Dan'' stateOrphan) =
              failure MSG_NOT_FOUND"
    by blast
  from C3_capacity_and_full_queue [where s = stateTwoFull and pid = "''R''" and env = envB
      and uid = "''D''" and qty = 1 and email = "[]" and name = "''Dan''"
      and pq = queueTwo and db = findRejected]
    h2 db
  have w6: "fst (joinQueue findRejected envB ''D'' ''R'' 1 [] ''Dan'' stateTwoFull) =
              failure MSG_FAILED"
    by blast
  from C3_capacity_and_full_queue [where s = state3 and pid = "''R''" and r = "''R''"
      and uid = "''B''" and qid = None and db = allReturn
      and pq' = "queueR\<lparr>items := [itemA, itemC]\<rparr>"]
    l
  have w7: "\<exists>pq0. map_of (productQueues state3) ''R'' = Some pq0 \<and>
      maxQueueSize (queueR\<lparr>items := [itemA, itemC]\<rparr>) = maxQueueSize pq0"
    by blast
  from C3_capacity_and_full_queue [where s = state3 and pid = "''R''" and now = 902000
      and pq' = "queueR\<lparr>items := [itemC]\<rparr>"]
    c u
  have w8: "\<exists>pq0. map_of (productQueues state3) ''R'' = Some pq0 \<and>
      maxQueueSize (queueR\<lparr>items := [itemC]\<rparr>) = maxQueueSize pq0"
    by blast
  from h0 j h2 l c u w1 w2 w3 w4 w5 w6 w7 w8 show ?thesis
    by blast
qed

text \<open>
  The claim as the specification words it says that every join at a full queue fails
  with the capacity failure. Ten users have joined with quantity 1 for a product with 15
  in stock: the queue holds its 10 entries and 5 units are left. A further join by the
  first of them is answered with the duplicate failure, because that check comes first.
\<close>

theorem C3_counterexample:
  "map_of (productQueues stateFull) ''R'' \<noteq> None \<and>
   int (length (items (the (map_of (productQueues stateFull) ''R'')))) =
     maxQueueSize (the (map_of (productQueues stateFull) ''R'')) \<and>
   fst (joinQueue allReturn envA ''U0'' ''R'' 1 [] ''U0'' stateFull) =
     failure MSG_ALREADY_QUEUED \<and>
   failure MSG_ALREADY_QUEUED \<noteq> failure MSG_QUEUE_FULL"
  by (simp add: stateFull_def joinAll_def tenUsers_def state15_def envFor_def join_defs envA_def
      DEFAULT_QUEUE_SIZE_def DEFAULT_TIMEOUT_def calculateEstimatedWaitTime_def
      MSG_ALREADY_QUEUED_def MSG_QUEUE_FULL_def)

end
